theory Spec2Isabelle
  imports Main "HOL-Library.AList" "HOL-Library.Sublist"
begin

section \<open>The ZooKeeper charm: stored key material, keystores and zookeeper.properties\<close>

text \<open>
  A shallow embedding of \<^verbatim>\<open>src/charm.py\<close> (class \<^verbatim>\<open>ZookeeperCharm\<close>).
  Every method becomes a function on an explicit world: the stored state \<^verbatim>\<open>self.ks\<close>,
  a counter of the random draws made so far, and the log of the calls made to the
  collaborators outside the charm (certificate generation, keystore packaging, relation
  announcements, template rendering, service management). A Python exception is the
  left summand of the result.
\<close>

subsection \<open>Exceptions and sequencing\<close>

datatype error =
    KeyError string
  | AttributeError string
  | TypeError string
  | IndexError
  | DecodeError string
  | ConflictError nat

definition and_then :: "error + 'a \<Rightarrow> ('a \<Rightarrow> error + 'b) \<Rightarrow> error + 'b" where
  "and_then m f = (case m of Inl e \<Rightarrow> Inl e | Inr v \<Rightarrow> f v)"

text \<open>\<^verbatim>\<open>d[key]\<close> on a mapping raises \<^verbatim>\<open>KeyError\<close> when the key is absent.\<close>

definition lookup :: "string \<Rightarrow> 'a option \<Rightarrow> error + 'a" where
  "lookup key v = (case v of None \<Rightarrow> Inl (KeyError key) | Some a \<Rightarrow> Inr a)"

text \<open>\<^verbatim>\<open>self.ks.name\<close> on a stored attribute that was never set raises \<^verbatim>\<open>AttributeError\<close>.\<close>

definition attribute :: "string \<Rightarrow> 'a option \<Rightarrow> error + 'a" where
  "attribute name v = (case v of None \<Rightarrow> Inl (AttributeError name) | Some a \<Rightarrow> Inr a)"

subsection \<open>Configuration, stored state, collaborators\<close>

text \<open>
  \<^verbatim>\<open>self.config\<close>: one field per option the charm reads, \<open>None\<close> when the option is
  absent from the mapping. The comment gives the option's key. \<^verbatim>\<open>self.distro\<close> is an
  attribute of the base class and is carried here with the configuration.
\<close>

record config =
  generate_root_ca :: "bool option"  \<comment> \<open>generate-root-ca\<close>
  cfg_ssl_cert :: "string option"  \<comment> \<open>ssl_cert\<close>
  cfg_ssl_key :: "string option"  \<comment> \<open>ssl_key\<close>
  ssl_quorum_cert :: "string option"  \<comment> \<open>ssl-quorum-cert\<close>
  ssl_quorum_key :: "string option"  \<comment> \<open>ssl-quorum-key\<close>
  keystore_path :: "string option"  \<comment> \<open>keystore-path\<close>
  truststore_path :: "string option"  \<comment> \<open>truststore-path\<close>
  quorum_keystore_path :: "string option"  \<comment> \<open>quorum-keystore-path\<close>
  quorum_truststore_path :: "string option"  \<comment> \<open>quorum-truststore-path\<close>
  cfg_user :: "string option"  \<comment> \<open>user\<close>
  cfg_group :: "string option"  \<comment> \<open>group\<close>
  clientPort :: "int option"  \<comment> \<open>clientPort\<close>
  ssl_quorum :: "bool option"  \<comment> \<open>ssl_quorum\<close>
  zookeeper_properties :: "string option"  \<comment> \<open>zookeeper-properties\<close>
  data_dir :: "string option"  \<comment> \<open>data-dir\<close>
  data_log_dir :: "string option"  \<comment> \<open>data-log-dir\<close>
  log4j_root_logger :: "string option"  \<comment> \<open>log4j-root-logger\<close>
  distro :: string

text \<open>
  \<^verbatim>\<open>self.ks\<close> belongs to the base class \<^verbatim>\<open>KafkaJavaCharmBase\<close>, which is not part of
  the repository and whose constructor runs first (line 45). What that constructor has
  stored when it returns is not known from the sources: it is a parameter of the model,
  in which each of the eight attributes the charm uses is set or not.
\<close>

record attributes =
  base_quorum_cert :: "string option"
  base_quorum_key :: "string option"
  base_ssl_cert :: "string option"
  base_ssl_key :: "string option"
  base_ts_zookeeper_pwd :: "string option"
  base_ks_zookeeper_pwd :: "string option"
  base_ks_password :: "string option"
  base_ts_password :: "string option"

text \<open>
  \<^verbatim>\<open>self.ks\<close> from line 66 on. Lines 60 to 65 declare a default for six attributes, so
  a read of them always succeeds. They declare none for \<^verbatim>\<open>ks_password\<close> and
  \<^verbatim>\<open>ts_password\<close>, which are set only if the base class or a later assignment has
  set them.
\<close>

record stored =
  quorum_cert :: string
  quorum_key :: string
  ssl_cert :: string
  ssl_key :: string
  ts_zookeeper_pwd :: string
  ks_zookeeper_pwd :: string
  ks_password :: "string option"
  ts_password :: "string option"

text \<open>
  The functions imported from outside the repository are parameters of the model.
  The random ones take the number of draws made so far as their source of entropy.
  \<^item> \<open>b64decode_ascii s\<close> is \<^verbatim>\<open>base64.b64decode(s).decode("ascii")\<close>, \<open>None\<close> when it raises;
  \<^item> \<open>generateSelfSigned certname n\<close> is the certificate and key of the \<open>n\<close>-th draw;
  \<^item> \<open>genRandomPassword len n\<close> is the password of the \<open>n\<close>-th draw, \<open>len\<close> the optional
    length argument;
  \<^item> \<open>yaml_items s\<close> is \<^verbatim>\<open>list(yaml.safe_load(s).items())\<close>, \<open>None\<close> when it raises;
  \<^item> \<open>service_running s\<close> is the answer of the service manager.
\<close>

record ext =
  b64decode_ascii :: "string \<Rightarrow> string option"
  generateSelfSigned :: "string \<Rightarrow> nat \<Rightarrow> string \<times> string"
  genRandomPassword :: "nat option \<Rightarrow> nat \<Rightarrow> string"
  yaml_items :: "string \<Rightarrow> (string \<times> string) list option"
  service_running :: "string \<Rightarrow> bool"

datatype pval = PStr string | PInt int

type_synonym props = "(string \<times> pval) list"

datatype ctx = ZkProps props | RootLogger string

text \<open>The calls made to collaborators, in the order they are made.\<close>

datatype event =
    Makedirs string
  | SelfSigned string string string
      \<comment> \<open>certname, user, group\<close>
  | KeystoreWritten string string string string string string string
      \<comment> \<open>path, password, certificate, key, user, group, staging name\<close>
  | MTLSAnnounced string string string
      \<comment> \<open>\<^verbatim>\<open>zk.set_mTLS_auth\<close>: certificate, truststore path, truststore password\<close>
  | QuorumKeypairAnnounced string string string string string
      \<comment> \<open>\<^verbatim>\<open>cluster.set_ssl_keypair\<close>: certificate, truststore path, password, user, group\<close>
  | Rendered string string "string option" "string option" ctx
      \<comment> \<open>\<^verbatim>\<open>render\<close>: source, target, owner, group, context\<close>
  | ServiceOverrideRendered
  | ServiceReload string
  | ServiceRestart string

record world =
  ks :: stored
  tick :: nat
  log :: "event list"

text \<open>
  \<^verbatim>\<open>self.ks.set_default(name=value)\<close> gives the attribute the value only if it has none.
  Lines 60 to 65 do so for six attributes.
\<close>

definition set_default :: "'a option \<Rightarrow> 'a \<Rightarrow> 'a" where
  "set_default v d = (case v of None \<Rightarrow> d | Some a \<Rightarrow> a)"

definition set_defaults :: "attributes \<Rightarrow> stored" where
  "set_defaults a =
     \<lparr>quorum_cert = set_default (base_quorum_cert a) [],
      quorum_key = set_default (base_quorum_key a) [],
      ssl_cert = set_default (base_ssl_cert a) [],
      ssl_key = set_default (base_ssl_key a) [],
      ts_zookeeper_pwd = set_default (base_ts_zookeeper_pwd a) [],
      ks_zookeeper_pwd = set_default (base_ks_zookeeper_pwd a) [],
      ks_password = base_ks_password a,
      ts_password = base_ts_password a\<rparr>"

subsection \<open>Key material and keystore paths\<close>

definition get_ssl_cert :: "ext \<Rightarrow> config \<Rightarrow> stored \<Rightarrow> error + string" where
  "get_ssl_cert x cfg s =
     and_then (lookup ''generate-root-ca'' (generate_root_ca cfg)) (\<lambda>gen.
       if gen then Inr (ssl_cert s)
       else and_then (lookup ''ssl_cert'' (cfg_ssl_cert cfg)) (\<lambda>v.
         case b64decode_ascii x v of None \<Rightarrow> Inl (DecodeError ''ssl_cert'') | Some d \<Rightarrow> Inr d))"

definition get_ssl_key :: "ext \<Rightarrow> config \<Rightarrow> stored \<Rightarrow> error + string" where
  "get_ssl_key x cfg s =
     and_then (lookup ''generate-root-ca'' (generate_root_ca cfg)) (\<lambda>gen.
       if gen then Inr (ssl_key s)
       else and_then (lookup ''ssl_key'' (cfg_ssl_key cfg)) (\<lambda>v.
         case b64decode_ascii x v of None \<Rightarrow> Inl (DecodeError ''ssl_key'') | Some d \<Rightarrow> Inr d))"

definition get_quorum_cert :: "ext \<Rightarrow> config \<Rightarrow> stored \<Rightarrow> error + string" where
  "get_quorum_cert x cfg s =
     and_then (lookup ''generate-root-ca'' (generate_root_ca cfg)) (\<lambda>gen.
       if gen then Inr (quorum_cert s)
       else and_then (lookup ''ssl-quorum-cert'' (ssl_quorum_cert cfg)) (\<lambda>v.
         case b64decode_ascii x v of None \<Rightarrow> Inl (DecodeError ''ssl-quorum-cert'') | Some d \<Rightarrow> Inr d))"

definition get_quorum_key :: "ext \<Rightarrow> config \<Rightarrow> stored \<Rightarrow> error + string" where
  "get_quorum_key x cfg s =
     and_then (lookup ''generate-root-ca'' (generate_root_ca cfg)) (\<lambda>gen.
       if gen then Inr (quorum_key s)
       else and_then (lookup ''ssl-quorum-key'' (ssl_quorum_key cfg)) (\<lambda>v.
         case b64decode_ascii x v of None \<Rightarrow> Inl (DecodeError ''ssl-quorum-key'') | Some d \<Rightarrow> Inr d))"

text \<open>\<^verbatim>\<open>self.config.get(key, default)\<close>.\<close>

definition get_or :: "'a option \<Rightarrow> 'a \<Rightarrow> 'a" where
  "get_or v d = (case v of None \<Rightarrow> d | Some a \<Rightarrow> a)"

definition get_ssl_keystore :: "config \<Rightarrow> string" where
  "get_ssl_keystore cfg = get_or (keystore_path cfg) ''/var/ssl/private/kafka_ssl_ks.jks''"

definition get_ssl_truststore :: "config \<Rightarrow> string" where
  "get_ssl_truststore cfg = get_or (truststore_path cfg) ''/var/ssl/private/kafka_ssl_ks.jks''"

definition get_quorum_keystore :: "config \<Rightarrow> string" where
  "get_quorum_keystore cfg =
     get_or (quorum_keystore_path cfg) ''/var/ssl/private/kafka_quorum_ks.jks''"

definition get_quorum_truststore :: "config \<Rightarrow> string" where
  "get_quorum_truststore cfg =
     get_or (quorum_truststore_path cfg) ''/var/ssl/private,kafka_quorum_ts.jks''"

subsection \<open>Keystore generation\<close>

text \<open>The guard of the first early return: all four stored fields are non-empty.\<close>

definition material_complete :: "stored \<Rightarrow> bool" where
  "material_complete s \<longleftrightarrow>
     length (quorum_cert s) > 0 \<and> length (quorum_key s) > 0 \<and>
     length (ssl_cert s) > 0 \<and> length (ssl_key s) > 0"

text \<open>
  The branch \<^verbatim>\<open>if self.config["generate-root-ca"]\<close>: two self-signed pairs are drawn
  and stored, the quorum one first.
\<close>

definition generate_material :: "ext \<Rightarrow> config \<Rightarrow> world \<Rightarrow> error + world" where
  "generate_material x cfg w =
     and_then (lookup ''user'' (cfg_user cfg)) (\<lambda>u.
     and_then (lookup ''group'' (cfg_group cfg)) (\<lambda>g.
       let (qc, qk) = generateSelfSigned x ''quorum-zookeeper-root-ca'' (tick w);
           (sc, sk) = generateSelfSigned x ''ssl-zookeeper-root-ca'' (Suc (tick w))
       in Inr (w\<lparr>ks := (ks w)\<lparr>quorum_cert := qc, quorum_key := qk,
                                ssl_cert := sc, ssl_key := sk\<rparr>,
                 tick := tick w + 2,
                 log := log w @ [SelfSigned ''quorum-zookeeper-root-ca'' u g,
                                 SelfSigned ''ssl-zookeeper-root-ca'' u g]\<rparr>)))"

text \<open>
  The test "the certificates remain the same" of the \<^verbatim>\<open>else\<close> branch, with Python's
  short-circuit \<^verbatim>\<open>and\<close>: a getter is called only when the comparisons before it held.
  The fourth conjunct compares the quorum key again, as the source does.
\<close>

definition certs_unchanged :: "ext \<Rightarrow> config \<Rightarrow> stored \<Rightarrow> error + bool" where
  "certs_unchanged x cfg s =
     and_then (get_quorum_cert x cfg s) (\<lambda>qc.
       if quorum_cert s \<noteq> qc then Inr False
       else and_then (get_quorum_key x cfg s) (\<lambda>qk.
         if quorum_key s \<noteq> qk then Inr False
         else and_then (get_ssl_cert x cfg s) (\<lambda>sc.
           if ssl_cert s \<noteq> sc then Inr False
           else and_then (get_quorum_key x cfg s) (\<lambda>qk'.
             Inr (quorum_key s = qk')))))"

text \<open>The four assignments that follow the test; each getter sees the fields assigned before it.\<close>

definition store_material :: "ext \<Rightarrow> config \<Rightarrow> world \<Rightarrow> error + world" where
  "store_material x cfg w =
     and_then (get_quorum_cert x cfg (ks w)) (\<lambda>qc.
       let s1 = (ks w)\<lparr>quorum_cert := qc\<rparr> in
     and_then (get_quorum_key x cfg s1) (\<lambda>qk.
       let s2 = s1\<lparr>quorum_key := qk\<rparr> in
     and_then (get_ssl_cert x cfg s2) (\<lambda>sc.
       let s3 = s2\<lparr>ssl_cert := sc\<rparr> in
     and_then (get_ssl_key x cfg s3) (\<lambda>sk.
       Inr (w\<lparr>ks := s3\<lparr>ssl_key := sk\<rparr>\<rparr>)))))"

text \<open>
  The block guarded by the quorum pair being non-empty: a password and a staging name
  are drawn, the password is stored, the keystore is packaged.
\<close>

definition create_quorum_keystore :: "ext \<Rightarrow> config \<Rightarrow> world \<Rightarrow> error + world" where
  "create_quorum_keystore x cfg w =
     (if length (quorum_cert (ks w)) > 0 \<and> length (quorum_key (ks w)) > 0 then
        let pwd = genRandomPassword x None (tick w);
            filename = genRandomPassword x (Some 6) (Suc (tick w));
            s1 = (ks w)\<lparr>ks_zookeeper_pwd := pwd\<rparr>
        in and_then (get_quorum_cert x cfg s1) (\<lambda>c.
           and_then (get_quorum_key x cfg s1) (\<lambda>k.
           and_then (lookup ''user'' (cfg_user cfg)) (\<lambda>u.
           and_then (lookup ''group'' (cfg_group cfg)) (\<lambda>g.
             Inr (w\<lparr>ks := s1, tick := tick w + 2,
                     log := log w @
                       [KeystoreWritten (get_quorum_keystore cfg) pwd c k u g filename]\<rparr>)))))
      else Inr w)"

text \<open>The same for the client pair; the password goes to \<^verbatim>\<open>ks_password\<close>.\<close>

definition create_ssl_keystore :: "ext \<Rightarrow> config \<Rightarrow> world \<Rightarrow> error + world" where
  "create_ssl_keystore x cfg w =
     (if length (ssl_cert (ks w)) > 0 \<and> length (ssl_key (ks w)) > 0 then
        let pwd = genRandomPassword x None (tick w);
            filename = genRandomPassword x (Some 6) (Suc (tick w));
            s1 = (ks w)\<lparr>ks_password := Some pwd\<rparr>
        in and_then (get_ssl_cert x cfg s1) (\<lambda>c.
           and_then (get_ssl_key x cfg s1) (\<lambda>k.
           and_then (lookup ''user'' (cfg_user cfg)) (\<lambda>u.
           and_then (lookup ''group'' (cfg_group cfg)) (\<lambda>g.
             Inr (w\<lparr>ks := s1, tick := tick w + 2,
                     log := log w @
                       [KeystoreWritten (get_ssl_keystore cfg) pwd c k u g filename]\<rparr>)))))
      else Inr w)"

text \<open>\<^verbatim>\<open>_generate_keystores\<close>.\<close>

definition generate_keystores :: "ext \<Rightarrow> config \<Rightarrow> world \<Rightarrow> error + world" where
  "generate_keystores x cfg w =
     and_then (lookup ''generate-root-ca'' (generate_root_ca cfg)) (\<lambda>gen.
       if gen \<and> material_complete (ks w) then Inr w
       else if gen then
         and_then (generate_material x cfg w) (\<lambda>w1.
         and_then (create_quorum_keystore x cfg w1) (create_ssl_keystore x cfg))
       else
         and_then (certs_unchanged x cfg (ks w)) (\<lambda>same.
           if same then Inr w
           else
             and_then (store_material x cfg w) (\<lambda>w1.
             and_then (create_quorum_keystore x cfg w1) (create_ssl_keystore x cfg))))"

subsection \<open>Rendering zookeeper.properties\<close>

text \<open>
  \<^verbatim>\<open>zk_props\<close> is a Python dictionary: it keeps its keys in the order of their first
  assignment, and assigning to a key that is present replaces the value in place. That
  is \<open>AList.update\<close> on an association list.
\<close>

definition dict_set :: "string \<Rightarrow> pval \<Rightarrow> props \<Rightarrow> props" where
  "dict_set k v p = AList.update k v p"

text \<open>\<^verbatim>\<open>"{}".format(n)\<close> for an integer: its decimal digits, with a minus sign when negative.\<close>

definition digit_char :: "nat \<Rightarrow> char" where
  "digit_char d = ''0123456789'' ! d"

fun string_of_nat :: "nat \<Rightarrow> string" where
  "string_of_nat n =
     (if n < 10 then [digit_char n] else string_of_nat (n div 10) @ [digit_char (n mod 10)])"

declare string_of_nat.simps [simp del]

definition str_int :: "int \<Rightarrow> string" where
  "str_int i = (if i < 0 then CHR ''-'' # string_of_nat (nat (- i)) else string_of_nat (nat i))"

text \<open>
  The cluster relation object lives in \<^verbatim>\<open>cluster.py\<close>, which is not among the sources.
  The charm reads two of its properties, \<^verbatim>\<open>is_ready\<close> and \<^verbatim>\<open>get_peers\<close>; they are
  taken as given. A peer is a dictionary with the keys \<^verbatim>\<open>myid\<close> and \<^verbatim>\<open>endpoint\<close>.
\<close>

record peer =
  myid :: int
  endpoint :: string

record cluster =
  is_ready :: bool
  get_peers :: "peer list"

datatype status = BlockedStatus string | ActiveStatus string

text \<open>\<^verbatim>\<open>list(yaml.safe_load(s).items())[0][1]\<close>.\<close>

definition first_item_value :: "ext \<Rightarrow> string \<Rightarrow> error + string" where
  "first_item_value x s =
     (case yaml_items x s of
        None \<Rightarrow> Inl (DecodeError ''yaml'')
      | Some [] \<Rightarrow> Inl IndexError
      | Some (kv # _) \<Rightarrow> Inr (snd kv))"

text \<open>
  The first five lines of \<^verbatim>\<open>_render_zk_properties\<close>. The option
  \<^verbatim>\<open>zookeeper-properties\<close> is a string; when it is non-empty, \<^verbatim>\<open>zk_props\<close> is that
  string and the first item assignment raises \<^verbatim>\<open>TypeError\<close>, after its right-hand
  side has been evaluated.
\<close>

definition base_props :: "ext \<Rightarrow> config \<Rightarrow> error + props" where
  "base_props x cfg =
     and_then (lookup ''data-dir'' (data_dir cfg)) (\<lambda>d.
     and_then (first_item_value x d) (\<lambda>dd.
       if get_or (zookeeper_properties cfg) [] \<noteq> [] then Inl (TypeError ''zk_props'')
       else
         and_then (lookup ''data-log-dir'' (data_log_dir cfg)) (\<lambda>l.
         and_then (first_item_value x l) (\<lambda>dl.
           Inr (dict_set ''dataLogDir'' (PStr dl) (dict_set ''dataDir'' (PStr dd) []))))))"

text \<open>The client branch, guarded by the stored client pair being non-empty.\<close>

definition client_section :: "config \<Rightarrow> world \<Rightarrow> props \<Rightarrow> error + world \<times> props" where
  "client_section cfg w p =
     (if length (ssl_cert (ks w)) > 0 \<and> length (ssl_key (ks w)) > 0 then
        let p1 = dict_set ''secureClientPort'' (PInt (get_or (clientPort cfg) 2182)) p;
            p2 = dict_set ''serverCnxnFactory''
                   (PStr ''org.apache.zookeeper.server.NettyServerCnxnFactory'') p1;
            p3 = dict_set ''authProvider.x509''
                   (PStr ''org.apache.zookeeper.server.auth.X509AuthenticationProvider'') p2;
            p4 = dict_set ''sslQuorum'' (PStr ''false'') p3;
            p5 = dict_set ''ssl.clientAuth'' (PStr ''need'') p4;
            p6 = dict_set ''ssl.keyStore.location''
                   (PStr (get_or (keystore_path cfg) ''/var/ssl/private/zookeeper.keystore.jks'')) p5
        in and_then (attribute ''ks_password'' (ks_password (ks w))) (\<lambda>kp.
             let p7 = dict_set ''ssl.keyStore.password'' (PStr kp) p6;
                 ts = get_or (truststore_path cfg) ''/var/ssl/private/zookeeper.truststore.jks'';
                 p8 = dict_set ''ssl.trustStore.location'' (PStr ts) p7
             in and_then (attribute ''ts_password'' (ts_password (ks w))) (\<lambda>tp.
                  let p9 = dict_set ''ssl.trustStore.password'' (PStr tp) p8
                  in and_then (lookup ''ssl_cert'' (cfg_ssl_cert cfg)) (\<lambda>c.
                       Inr (w\<lparr>log := log w @ [MTLSAnnounced c ts tp]\<rparr>, p9))))
      else
        Inr (w, dict_set ''clientPort'' (PInt (get_or (clientPort cfg) 2182))
                  (dict_set ''ssl.clientAuth'' (PStr ''none'') p)))"

text \<open>
  Modelled from the spec: \<^verbatim>\<open>cluster.set_ssl_keypair\<close> is defined in \<^verbatim>\<open>cluster.py\<close>,
  which is missing. The spec (4.4) makes it a one-way broadcast of the quorum material to
  the peers; here it is one entry of the log and cannot fail.
\<close>

definition set_ssl_keypair ::
    "string \<Rightarrow> string \<Rightarrow> string \<Rightarrow> string \<Rightarrow> string \<Rightarrow> world \<Rightarrow> world" where
  "set_ssl_keypair cert ts_path ts_pwd u g w =
     w\<lparr>log := log w @ [QuorumKeypairAnnounced cert ts_path ts_pwd u g]\<rparr>"

text \<open>The quorum branch, guarded by the option \<^verbatim>\<open>ssl_quorum\<close> alone.\<close>

definition quorum_section :: "ext \<Rightarrow> config \<Rightarrow> world \<Rightarrow> props \<Rightarrow> error + world \<times> props" where
  "quorum_section x cfg w p =
     (if get_or (ssl_quorum cfg) False then
        let p1 = dict_set ''serverCnxnFactory''
                   (PStr ''org.apache.zookeeper.server.NettyServerCnxnFactory'') p
        in and_then (get_quorum_cert x cfg (ks w)) (\<lambda>c.
           and_then (lookup ''user'' (cfg_user cfg)) (\<lambda>u.
           and_then (lookup ''group'' (cfg_group cfg)) (\<lambda>g.
             let w1 = set_ssl_keypair c (get_quorum_truststore cfg)
                        (ts_zookeeper_pwd (ks w)) u g w;
                 p2 = dict_set ''ssl.quorum.keyStore.location''
                        (PStr (get_quorum_keystore cfg)) p1;
                 p3 = dict_set ''ssl.quorum.keyStore.password''
                        (PStr (ks_zookeeper_pwd (ks w1))) p2;
                 p4 = dict_set ''ssl.quorum.trustStore.location''
                        (PStr (get_quorum_truststore cfg)) p3;
                 p5 = dict_set ''ssl.quorum.trustStore.password''
                        (PStr (ts_zookeeper_pwd (ks w1))) p4
             in Inr (w1, dict_set ''sslQuorum'' (PStr ''true'') p5))))
      else Inr (w, p))"

text \<open>The loop over the peer list: one assignment per peer, in the order of the list.\<close>

definition server_key :: "peer \<Rightarrow> string" where
  "server_key pr = ''server.'' @ str_int (myid pr)"

primrec add_servers :: "peer list \<Rightarrow> props \<Rightarrow> props" where
  "add_servers [] p = p"
| "add_servers (pr # prs) p = add_servers prs (dict_set (server_key pr) (PStr (endpoint pr)) p)"

text \<open>
  \<^verbatim>\<open>_render_zk_properties\<close>. The method returns nothing. When the ensemble is not
  ready it builds a \<^verbatim>\<open>BlockedStatus\<close> object in an expression statement (line 289),
  which is assigned to nothing and has no effect, and returns.
\<close>

definition render_zk_properties :: "ext \<Rightarrow> config \<Rightarrow> cluster \<Rightarrow> world \<Rightarrow> error + world" where
  "render_zk_properties x cfg cl w =
     and_then (base_props x cfg) (\<lambda>p0.
     and_then (client_section cfg w p0) (\<lambda>(w1, p1).
     and_then (quorum_section x cfg w1 p1) (\<lambda>(w2, p2).
       if \<not> is_ready cl then Inr w2
       else
         Inr (w2\<lparr>log := log w2 @
                  [Rendered ''zookeeper.properties.j2'' ''/etc/kafka/zookeeper.properties''
                     (cfg_user cfg) (cfg_group cfg)
                     (ZkProps (add_servers (get_peers cl) p2))]\<rparr>))))"

subsection \<open>The configuration-changed handler and the constructor\<close>

definition render_zk_log4j_properties :: "config \<Rightarrow> world \<Rightarrow> world" where
  "render_zk_log4j_properties cfg w =
     (let root_logger =
            (if get_or (log4j_root_logger cfg) [] = [] then ''INFO, stdout, zkAppender''
             else get_or (log4j_root_logger cfg) [])
      in w\<lparr>log := log w @
              [Rendered ''zookeeper_log4j.properties.j2'' ''/etc/kafka/zookeeper-log4j.properties''
                 (cfg_user cfg) (cfg_group cfg) (RootLogger root_logger)]\<rparr>)"

definition check_if_ready :: "ext \<Rightarrow> cluster \<Rightarrow> string \<Rightarrow> status" where
  "check_if_ready x cl service =
     (if \<not> is_ready cl then BlockedStatus ''Waiting for cluster relation''
      else if \<not> service_running x service then BlockedStatus (''Service not running '' @ service)
      else ActiveStatus (service @ '' running''))"

text \<open>\<^verbatim>\<open>self.service\<close> is assigned for two distributions only.\<close>

definition service :: "config \<Rightarrow> string option" where
  "service cfg =
     (if distro cfg = ''confluent'' then Some ''confluent-zookeeper''
      else if distro cfg = ''apache'' then Some ''zookeeper''
      else None)"

text \<open>
  \<^verbatim>\<open>_on_config_changed\<close>: keystores first, then the properties, then the service. The
  handler returns nothing; the model returns, beside the world, the status object
  \<^verbatim>\<open>_check_if_ready\<close> builds last, which the source assigns to nothing. \<^verbatim>\<open>render_service_override_file\<close>, \<^verbatim>\<open>service_reload\<close> and
  \<^verbatim>\<open>service_restart\<close> come from outside the repository and are entries of the log.
\<close>

definition on_config_changed ::
    "ext \<Rightarrow> config \<Rightarrow> cluster \<Rightarrow> world \<Rightarrow> error + world \<times> status" where
  "on_config_changed x cfg cl w =
     and_then (generate_keystores x cfg w) (\<lambda>w1.
     and_then (render_zk_properties x cfg cl w1) (\<lambda>w2.
       let w3 = render_zk_log4j_properties cfg w2;
           w4 = w3\<lparr>log := log w3 @ [ServiceOverrideRendered]\<rparr>
       in and_then (attribute ''service'' (service cfg)) (\<lambda>svc.
            Inr (w4\<lparr>log := log w4 @ [ServiceReload svc, ServiceRestart svc]\<rparr>,
                 check_if_ready x cl svc))))"

text \<open>
  The world in which the first hook of a unit starts: the base class's constructor has
  stored \<open>a\<close>, lines 60 to 65 have declared the defaults, nothing is drawn or logged.
\<close>

definition unit_start :: "attributes \<Rightarrow> world" where
  "unit_start a = \<lparr>ks = set_defaults a, tick = 0, log = []\<rparr>"

text \<open>
  \<^verbatim>\<open>__init__\<close>, from line 66 on: on a world whose six defaulted fields are set the
  \<^verbatim>\<open>set_default\<close> calls change nothing, the directory is made, the keystores generated.
\<close>

definition charm_init :: "ext \<Rightarrow> config \<Rightarrow> world \<Rightarrow> error + world" where
  "charm_init x cfg w =
     generate_keystores x cfg (w\<lparr>log := log w @ [Makedirs ''/var/ssl/private'']\<rparr>)"

subsection \<open>Observing a run\<close>

text \<open>
  The four stored fields of key material, the events a run added to the log, and the
  keystores packaged among them: path, password, certificate and key of each.
\<close>

definition material :: "stored \<Rightarrow> string \<times> string \<times> string \<times> string" where
  "material s = (quorum_cert s, quorum_key s, ssl_cert s, ssl_key s)"

definition new_events :: "world \<Rightarrow> world \<Rightarrow> event list" where
  "new_events w w1 = drop (length (log w)) (log w1)"

definition keystore_write :: "event \<Rightarrow> (string \<times> string \<times> string \<times> string) option" where
  "keystore_write e = (case e of KeystoreWritten p q c k _ _ _ \<Rightarrow> Some (p, q, c, k) | _ \<Rightarrow> None)"

definition keystore_writes :: "event list \<Rightarrow> (string \<times> string \<times> string \<times> string) list" where
  "keystore_writes evs = List.map_filter keystore_write evs"

text \<open>
  The certificate generator never returns an empty certificate or key; the getters
  return the stored fields; a keystore was packaged in the run from \<open>w\<close> to \<open>w1\<close> at
  \<open>path\<close>, from \<open>c\<close> and \<open>k\<close>, with a password drawn in that run.
\<close>

definition generator_nonempty :: "ext \<Rightarrow> bool" where
  "generator_nonempty x \<longleftrightarrow>
     (\<forall>certname n. fst (generateSelfSigned x certname n) \<noteq> [] \<and>
                   snd (generateSelfSigned x certname n) \<noteq> [])"

definition getters_agree :: "ext \<Rightarrow> config \<Rightarrow> stored \<Rightarrow> bool" where
  "getters_agree x cfg s \<longleftrightarrow>
     get_quorum_cert x cfg s = Inr (quorum_cert s) \<and> get_quorum_key x cfg s = Inr (quorum_key s) \<and>
     get_ssl_cert x cfg s = Inr (ssl_cert s) \<and> get_ssl_key x cfg s = Inr (ssl_key s)"

definition fresh_write ::
    "ext \<Rightarrow> world \<Rightarrow> world \<Rightarrow> string \<Rightarrow> string \<Rightarrow> string \<Rightarrow> string \<Rightarrow> bool" where
  "fresh_write x w w1 path pwd c k \<longleftrightarrow>
     (path, pwd, c, k) \<in> set (keystore_writes (new_events w w1)) \<and>
     (\<exists>n \<in> {tick w ..< tick w1}. pwd = genRandomPassword x None n)"

text \<open>
  A scope is half populated when exactly one of its certificate and its key is empty.
  \<open>packaged\<close> lists the certificate and key of every keystore a run packaged.
\<close>

definition half_populated :: "string \<Rightarrow> string \<Rightarrow> bool" where
  "half_populated c k \<longleftrightarrow> (c = []) \<noteq> (k = [])"

definition packaged :: "world \<Rightarrow> world \<Rightarrow> (string \<times> string) list" where
  "packaged w w1 = map (\<lambda>(p, q, c, k). (c, k)) (keystore_writes (new_events w w1))"

text \<open>What the \<^verbatim>\<open>else\<close> branch of the client section assigns: the plaintext client settings.\<close>

definition plaintext_client :: "config \<Rightarrow> props \<Rightarrow> props" where
  "plaintext_client cfg p =
     dict_set ''clientPort'' (PInt (get_or (clientPort cfg) 2182))
       (dict_set ''ssl.clientAuth'' (PStr ''none'') p)"

text \<open>
  The contexts of the properties file among some events, and the part of
  \<^verbatim>\<open>_render_zk_properties\<close> that comes before the readiness test: the three stages
  that build \<^verbatim>\<open>zk_props\<close>.
\<close>

definition zk_rendered :: "event list \<Rightarrow> props list" where
  "zk_rendered evs =
     List.map_filter (\<lambda>e. case e of Rendered _ _ _ _ (ZkProps p) \<Rightarrow> Some p | _ \<Rightarrow> None) evs"

definition build_props :: "ext \<Rightarrow> config \<Rightarrow> world \<Rightarrow> error + world \<times> props" where
  "build_props x cfg w =
     and_then (base_props x cfg) (\<lambda>p0.
     and_then (client_section cfg w p0) (\<lambda>(w1, p1). quorum_section x cfg w1 p1))"

text \<open>
  The entry the loop assigns for a peer, the entries of a property set whose key starts
  with \<^verbatim>\<open>server.\<close>, and the keys the three stages assign.
\<close>

definition server_entry :: "peer \<Rightarrow> string \<times> pval" where
  "server_entry pr = (server_key pr, PStr (endpoint pr))"

definition server_entries :: "props \<Rightarrow> props" where
  "server_entries p = filter (\<lambda>kv. prefix ''server.'' (fst kv)) p"

definition known_keys :: "string set" where
  "known_keys =
     {''dataDir'', ''dataLogDir'', ''secureClientPort'', ''serverCnxnFactory'',
      ''authProvider.x509'', ''sslQuorum'', ''ssl.clientAuth'', ''ssl.keyStore.location'',
      ''ssl.keyStore.password'', ''ssl.trustStore.location'', ''ssl.trustStore.password'',
      ''clientPort'', ''ssl.quorum.keyStore.location'', ''ssl.quorum.keyStore.password'',
      ''ssl.quorum.trustStore.location'', ''ssl.quorum.trustStore.password''}"

text \<open>A property set all of whose keys are among these.\<close>

definition only_known :: "props \<Rightarrow> bool" where
  "only_known p \<longleftrightarrow> fst ` set p \<subseteq> known_keys"






subsection \<open>The membership registry\<close>

text \<open>
  Modelled from the spec: the registry of the ensemble's members is implemented in
  \<^verbatim>\<open>cluster.py\<close>, which is missing. The data model is that of section 3 of the spec: a
  member has an endpoint and an origin, the members are a mapping from member id to
  member (an association list here), and the node may or may not have an id of its own.
\<close>

datatype origin = Self | Remote

record member =
  member_endpoint :: string
  member_origin :: origin

record registry =
  expectedSize :: nat
  self_endpoint :: string
  self_id :: "nat option"
  members :: "(nat \<times> member) list"

text \<open>
  Modelled from the spec: the search behind \<^verbatim>\<open>assignSelfId\<close>, which is missing:
  "the smallest positive integer not already present in members". The candidates are
  tried upwards from \<open>c\<close>.
\<close>

function first_free :: "nat list \<Rightarrow> nat \<Rightarrow> nat" where
  "first_free used c = (if c \<in> set used then first_free used (Suc c) else c)"
  by pat_completeness auto
termination
proof (relation "measure (\<lambda>(used, c). Suc (Max (set used)) - c)")
  show "wf (measure (\<lambda>(used, c). Suc (Max (set used)) - c))"
    by simp
next
  fix used :: "nat list" and c :: nat
  assume "c \<in> set used"
  then have "c \<le> Max (set used)"
    by simp
  then show "((used, Suc c), (used, c)) \<in> measure (\<lambda>(used, c). Suc (Max (set used)) - c)"
    by simp
qed

declare first_free.simps [simp del]

text \<open>
  Modelled from the spec: \<^verbatim>\<open>assignSelfId\<close>, which is missing (spec 4.1): "if self
  already has an assigned id, return it unchanged. Otherwise compute the smallest
  positive integer not already present in members, record it against Self, and return it."
\<close>

definition assignSelfId :: "registry \<Rightarrow> nat \<times> registry" where
  "assignSelfId r =
     (case self_id r of
        Some i \<Rightarrow> (i, r)
      | None \<Rightarrow>
          let i = first_free (map fst (members r)) 1
          in (i, r\<lparr>self_id := Some i,
                   members := AList.update i
                     \<lparr>member_endpoint = self_endpoint r, member_origin = Self\<rparr> (members r)\<rparr>))"

text \<open>
  Modelled from the spec: \<^verbatim>\<open>recordPeer\<close>, which is missing (spec 4.1): it "upserts a
  ClusterMember with origin = Remote" and "fails with ConflictError if an existing entry
  for the same memberId has a different endpoint and the caller did not explicitly
  request a replace".
\<close>

definition recordPeer :: "bool \<Rightarrow> nat \<Rightarrow> string \<Rightarrow> registry \<Rightarrow> error + registry" where
  "recordPeer replace i e r =
     (case map_of (members r) i of
        Some m \<Rightarrow>
          if member_endpoint m \<noteq> e \<and> \<not> replace then Inl (ConflictError i)
          else Inr (r\<lparr>members := AList.update i
                       \<lparr>member_endpoint = e, member_origin = Remote\<rparr> (members r)\<rparr>)
      | None \<Rightarrow>
          Inr (r\<lparr>members := AList.update i
                  \<lparr>member_endpoint = e, member_origin = Remote\<rparr> (members r)\<rparr>))"

text \<open>A sequence of peer announcements, stopping at the first conflict.\<close>

fun recordPeers :: "(bool \<times> nat \<times> string) list \<Rightarrow> registry \<Rightarrow> error + registry" where
  "recordPeers [] r = Inr r"
| "recordPeers ((replace, i, e) # ps) r = and_then (recordPeer replace i e r) (recordPeers ps)"

subsection \<open>Concrete inputs\<close>

text \<open>
  Two states the base class may hand over: one in which it has stored nothing, and one
  in which it has stored passwords for the client stores, as the charm's unit test
  expects of it (the test replaces \<^verbatim>\<open>ssl.trustStore.password\<close> in the rendered
  context, "since it is not possible to check" a random value). The worlds in which the
  first hook starts on them.
\<close>

definition nothing_stored :: attributes where
  "nothing_stored =
     \<lparr>base_quorum_cert = None, base_quorum_key = None, base_ssl_cert = None,
      base_ssl_key = None, base_ts_zookeeper_pwd = None, base_ks_zookeeper_pwd = None,
      base_ks_password = None, base_ts_password = None\<rparr>"

definition passwords_stored :: attributes where
  "passwords_stored =
     nothing_stored\<lparr>base_ks_password := Some ''base-keystore-password'',
                    base_ts_password := Some ''base-truststore-password''\<rparr>"

definition fresh_ks :: stored where
  "fresh_ks = set_defaults nothing_stored"

definition fresh_world :: world where
  "fresh_world = \<lparr>ks = fresh_ks, tick = 0, log = []\<rparr>"

text \<open>
  The inputs of the concrete runs below. Every entry of the decoding table is a fact of
  base64; the random functions are replaced by functions of the draw number.
\<close>

definition sample_ext :: ext where
  "sample_ext =
     \<lparr>b64decode_ascii = map_of
        [([], []), (''Q0VSVA=='', ''CERT''), (''S0VZ'', ''KEY''), (''UUNFUlQ='', ''QCERT''),
         (''UUtFWQ=='', ''QKEY''), (''T0xES0VZ'', ''OLDKEY''), (''TkVXS0VZ'', ''NEWKEY''),
         (''UUNFUlQy'', ''QCERT2'')],
      generateSelfSigned = (\<lambda>certname n. (''cert '' @ certname, ''key '' @ certname)),
      genRandomPassword = (\<lambda>len n. case len of None \<Rightarrow> ''password'' @ [digit_char (n mod 10)]
                                     | Some k \<Rightarrow> ''tmp00'' @ [digit_char (n mod 10)]),
      yaml_items = map_of
        [(''ext4: /var/lib/zookeeper'', [(''ext4'', ''/var/lib/zookeeper'')]),
         (''ext4: /var/lib/zookeeper-log'', [(''ext4'', ''/var/lib/zookeeper-log'')])],
      service_running = (\<lambda>_. True)\<rparr>"

text \<open>A configuration with no TLS material, the root CA not generated.\<close>

definition plain_cfg :: config where
  "plain_cfg =
     \<lparr>generate_root_ca = Some False,
      cfg_ssl_cert = Some [], cfg_ssl_key = Some [],
      ssl_quorum_cert = Some [], ssl_quorum_key = Some [],
      keystore_path = None, truststore_path = None,
      quorum_keystore_path = None, quorum_truststore_path = None,
      cfg_user = Some ''cp-kafka'', cfg_group = Some ''confluent'',
      clientPort = None, ssl_quorum = None, zookeeper_properties = None,
      data_dir = Some ''ext4: /var/lib/zookeeper'',
      data_log_dir = Some ''ext4: /var/lib/zookeeper-log'',
      log4j_root_logger = None, distro = ''confluent''\<rparr>"

text \<open>The ensemble of the charm's unit test: three members, ready.\<close>

definition three_members :: cluster where
  "three_members =
     \<lparr>is_ready = True,
      get_peers =
        [\<lparr>myid = 1, endpoint = ''ansiblezookeeper2.example.com:2888:3888''\<rparr>,
         \<lparr>myid = 2, endpoint = ''ansiblezookeeper3.example.com:2888:3888''\<rparr>,
         \<lparr>myid = 3, endpoint = ''ansiblezookeeper1.example.com:2888:3888''\<rparr>]\<rparr>"

text \<open>
  A configuration that supplies the four values as base64 text, and one that has the
  charm generate its root CA.
\<close>

definition supplied_cfg :: "string \<Rightarrow> string \<Rightarrow> string \<Rightarrow> string \<Rightarrow> config" where
  "supplied_cfg qc qk sc sk =
     plain_cfg\<lparr>ssl_quorum_cert := Some qc, ssl_quorum_key := Some qk,
               cfg_ssl_cert := Some sc, cfg_ssl_key := Some sk\<rparr>"

definition generated_cfg :: config where
  "generated_cfg = plain_cfg\<lparr>generate_root_ca := Some True\<rparr>"

text \<open>
  The world after the first run on the supplied material \<open>QCERT\<close>, \<open>QKEY\<close>, \<open>CERT\<close>,
  \<open>OLDKEY\<close>; the world after the quorum certificate was then replaced by \<open>QCERT2\<close>; the
  world after the constructor has generated the root CA.
\<close>

definition old_key_world :: world where
  "old_key_world =
     \<lparr>ks = \<lparr>quorum_cert = ''QCERT'', quorum_key = ''QKEY'', ssl_cert = ''CERT'', ssl_key = ''OLDKEY'',
             ts_zookeeper_pwd = [], ks_zookeeper_pwd = ''password0'',
             ks_password = Some ''password2'', ts_password = None\<rparr>,
      tick = 4,
      log = [KeystoreWritten ''/var/ssl/private/kafka_quorum_ks.jks'' ''password0'' ''QCERT'' ''QKEY''
               ''cp-kafka'' ''confluent'' ''tmp001'',
             KeystoreWritten ''/var/ssl/private/kafka_ssl_ks.jks'' ''password2'' ''CERT'' ''OLDKEY''
               ''cp-kafka'' ''confluent'' ''tmp003'']\<rparr>"

definition rotated_quorum_world :: world where
  "rotated_quorum_world =
     \<lparr>ks = \<lparr>quorum_cert = ''QCERT2'', quorum_key = ''QKEY'', ssl_cert = ''CERT'', ssl_key = ''OLDKEY'',
             ts_zookeeper_pwd = [], ks_zookeeper_pwd = ''password4'',
             ks_password = Some ''password6'', ts_password = None\<rparr>,
      tick = 8,
      log = log old_key_world @
            [KeystoreWritten ''/var/ssl/private/kafka_quorum_ks.jks'' ''password4'' ''QCERT2'' ''QKEY''
               ''cp-kafka'' ''confluent'' ''tmp005'',
             KeystoreWritten ''/var/ssl/private/kafka_ssl_ks.jks'' ''password6'' ''CERT'' ''OLDKEY''
               ''cp-kafka'' ''confluent'' ''tmp007'']\<rparr>"

definition generated_world :: world where
  "generated_world =
     \<lparr>ks = \<lparr>quorum_cert = ''cert quorum-zookeeper-root-ca'',
             quorum_key = ''key quorum-zookeeper-root-ca'',
             ssl_cert = ''cert ssl-zookeeper-root-ca'', ssl_key = ''key ssl-zookeeper-root-ca'',
             ts_zookeeper_pwd = [], ks_zookeeper_pwd = ''password2'',
             ks_password = Some ''password4'', ts_password = None\<rparr>,
      tick = 6,
      log = [Makedirs ''/var/ssl/private'',
             SelfSigned ''quorum-zookeeper-root-ca'' ''cp-kafka'' ''confluent'',
             SelfSigned ''ssl-zookeeper-root-ca'' ''cp-kafka'' ''confluent'',
             KeystoreWritten ''/var/ssl/private/kafka_quorum_ks.jks'' ''password2''
               ''cert quorum-zookeeper-root-ca'' ''key quorum-zookeeper-root-ca''
               ''cp-kafka'' ''confluent'' ''tmp003'',
             KeystoreWritten ''/var/ssl/private/kafka_ssl_ks.jks'' ''password4''
               ''cert ssl-zookeeper-root-ca'' ''key ssl-zookeeper-root-ca''
               ''cp-kafka'' ''confluent'' ''tmp005'']\<rparr>"

text \<open>
  A configuration that supplies the client certificate without its key and the quorum
  key without its certificate, and the world after \<^verbatim>\<open>_generate_keystores\<close> ran on it.
\<close>

definition half_cfg :: config where
  "half_cfg = supplied_cfg [] ''UUtFWQ=='' ''Q0VSVA=='' []"

definition half_world :: world where
  "half_world =
     \<lparr>ks = \<lparr>quorum_cert = [], quorum_key = ''QKEY'', ssl_cert = ''CERT'', ssl_key = [],
             ts_zookeeper_pwd = [], ks_zookeeper_pwd = [],
             ks_password = None, ts_password = None\<rparr>,
      tick = 0, log = []\<rparr>"

text \<open>
  The properties rendered without TLS, the three server entries of the unit test, the
  properties rendered with \<^verbatim>\<open>ssl_quorum\<close> set and no quorum material, and the calls
  that follow the properties file in \<^verbatim>\<open>_on_config_changed\<close>.
\<close>

definition plain_props :: props where
  "plain_props =
     [(''dataDir'', PStr ''/var/lib/zookeeper''),
      (''dataLogDir'', PStr ''/var/lib/zookeeper-log''),
      (''ssl.clientAuth'', PStr ''none''),
      (''clientPort'', PInt 2182)]"

definition three_servers :: props where
  "three_servers =
     [(''server.1'', PStr ''ansiblezookeeper2.example.com:2888:3888''),
      (''server.2'', PStr ''ansiblezookeeper3.example.com:2888:3888''),
      (''server.3'', PStr ''ansiblezookeeper1.example.com:2888:3888'')]"

definition quorum_flag_props :: props where
  "quorum_flag_props =
     plain_props @
     [(''serverCnxnFactory'', PStr ''org.apache.zookeeper.server.NettyServerCnxnFactory''),
      (''ssl.quorum.keyStore.location'', PStr ''/var/ssl/private/kafka_quorum_ks.jks''),
      (''ssl.quorum.keyStore.password'', PStr []),
      (''ssl.quorum.trustStore.location'', PStr ''/var/ssl/private,kafka_quorum_ts.jks''),
      (''ssl.quorum.trustStore.password'', PStr []),
      (''sslQuorum'', PStr ''true'')] @
     three_servers"

definition service_events :: "event list" where
  "service_events =
     [Rendered ''zookeeper_log4j.properties.j2'' ''/etc/kafka/zookeeper-log4j.properties''
        (Some ''cp-kafka'') (Some ''confluent'') (RootLogger ''INFO, stdout, zkAppender''),
      ServiceOverrideRendered,
      ServiceReload ''confluent-zookeeper'',
      ServiceRestart ''confluent-zookeeper'']"

text \<open>A ready ensemble whose peer list comes with the larger member id first.\<close>

definition swapped_peers :: cluster where
  "swapped_peers =
     \<lparr>is_ready = True,
      get_peers = [\<lparr>myid = 2, endpoint = ''host2:2888:3888''\<rparr>,
                   \<lparr>myid = 1, endpoint = ''host1:2888:3888''\<rparr>]\<rparr>"

text \<open>
  Registries: one whose node has no id yet, beside the remote members 1, 2 and 4; the
  same after \<^verbatim>\<open>assignSelfId\<close>; and that one after two more announcements.
\<close>

definition remote :: "string \<Rightarrow> member" where
  "remote e = \<lparr>member_endpoint = e, member_origin = Remote\<rparr>"

definition registry_before :: registry where
  "registry_before =
     \<lparr>expectedSize = 3, self_endpoint = ''host3:2888:3888'', self_id = None,
      members = [(1, remote ''host1:2888:3888''), (2, remote ''host2:2888:3888''),
                 (4, remote ''host4:2888:3888'')]\<rparr>"

definition registry_after :: registry where
  "registry_after =
     \<lparr>expectedSize = 3, self_endpoint = ''host3:2888:3888'', self_id = Some 3,
      members = [(1, remote ''host1:2888:3888''), (2, remote ''host2:2888:3888''),
                 (4, remote ''host4:2888:3888''),
                 (3, \<lparr>member_endpoint = ''host3:2888:3888'', member_origin = Self\<rparr>)]\<rparr>"

definition registry_peers :: registry where
  "registry_peers =
     registry_after\<lparr>members :=
       [(1, remote ''host9:2888:3888''), (2, remote ''host2:2888:3888''),
        (4, remote ''host4:2888:3888''),
        (3, \<lparr>member_endpoint = ''host3:2888:3888'', member_origin = Self\<rparr>),
        (5, remote ''host5:2888:3888'')]\<rparr>"


text \<open>
  A configuration that sets \<^verbatim>\<open>ssl_quorum\<close> and supplies no material, the world the
  constructor leaves on it, and the world after the handler.
\<close>

definition quorum_flag_cfg :: config where
  "quorum_flag_cfg = plain_cfg\<lparr>ssl_quorum := Some True\<rparr>"

definition started_world :: world where
  "started_world = \<lparr>ks = fresh_ks, tick = 0, log = [Makedirs ''/var/ssl/private'']\<rparr>"

definition quorum_flag_world :: world where
  "quorum_flag_world =
     started_world\<lparr>log :=
       [Makedirs ''/var/ssl/private'',
        QuorumKeypairAnnounced [] ''/var/ssl/private,kafka_quorum_ts.jks'' []
          ''cp-kafka'' ''confluent'',
        Rendered ''zookeeper.properties.j2'' ''/etc/kafka/zookeeper.properties''
          (Some ''cp-kafka'') (Some ''confluent'') (ZkProps quorum_flag_props)]
       @ service_events\<rparr>"



text \<open>
  The world after the constructor has generated the root CA on a unit whose base class
  has stored its passwords, the properties rendered on it, and the calls of that
  rendering.
\<close>

definition tls_props :: props where
  "tls_props =
     [(''dataDir'', PStr ''/var/lib/zookeeper''),
      (''dataLogDir'', PStr ''/var/lib/zookeeper-log''),
      (''secureClientPort'', PInt 2182),
      (''serverCnxnFactory'', PStr ''org.apache.zookeeper.server.NettyServerCnxnFactory''),
      (''authProvider.x509'',
       PStr ''org.apache.zookeeper.server.auth.X509AuthenticationProvider''),
      (''sslQuorum'', PStr ''false''),
      (''ssl.clientAuth'', PStr ''need''),
      (''ssl.keyStore.location'', PStr ''/var/ssl/private/zookeeper.keystore.jks''),
      (''ssl.keyStore.password'', PStr ''password4''),
      (''ssl.trustStore.location'', PStr ''/var/ssl/private/zookeeper.truststore.jks''),
      (''ssl.trustStore.password'', PStr ''base-truststore-password'')]
     @ three_servers"

definition tls_world :: world where
  "tls_world = generated_world\<lparr>ks := (ks generated_world)
      \<lparr>ts_password := Some ''base-truststore-password''\<rparr>\<rparr>"

definition tls_rendered :: "event list" where
  "tls_rendered =
     [MTLSAnnounced [] ''/var/ssl/private/zookeeper.truststore.jks'' ''base-truststore-password'',
      Rendered ''zookeeper.properties.j2'' ''/etc/kafka/zookeeper.properties''
        (Some ''cp-kafka'') (Some ''confluent'') (ZkProps tls_props)]"

section \<open>Properties\<close>

subsection \<open>Sequencing and lookups\<close>

lemma and_then_Inl [simp]: "and_then (Inl e) f = Inl e"
  by (simp add: and_then_def)

lemma and_then_Inr [simp]: "and_then (Inr v) f = f v"
  by (simp add: and_then_def)

lemma and_then_eq_Inr: "and_then m f = Inr y \<longleftrightarrow> (\<exists>v. m = Inr v \<and> f v = Inr y)"
  by (cases m) simp_all

lemma and_then_eq_Inl: "and_then m f = Inl e \<longleftrightarrow> m = Inl e \<or> (\<exists>v. m = Inr v \<and> f v = Inl e)"
  by (cases m) simp_all

lemma isl_and_then: "isl (and_then m f) \<longleftrightarrow> isl m \<or> (\<exists>v. m = Inr v \<and> isl (f v))"
  by (cases m) simp_all

lemma lookup_Some [simp]: "lookup key (Some a) = Inr a"
  by (simp add: lookup_def)

lemma lookup_None [simp]: "lookup key None = Inl (KeyError key)"
  by (simp add: lookup_def)

lemma lookup_eq_Inr: "lookup key v = Inr a \<longleftrightarrow> v = Some a"
  by (cases v) simp_all

lemma attribute_Some [simp]: "attribute name (Some a) = Inr a"
  by (simp add: attribute_def)

lemma attribute_None [simp]: "attribute name None = Inl (AttributeError name)"
  by (simp add: attribute_def)


subsection \<open>The getters and the two keystore blocks\<close>

lemma getters_generated:
  assumes "generate_root_ca cfg = Some True"
  shows "get_quorum_cert x cfg s = Inr (quorum_cert s)"
    and "get_quorum_key x cfg s = Inr (quorum_key s)"
    and "get_ssl_cert x cfg s = Inr (ssl_cert s)"
    and "get_ssl_key x cfg s = Inr (ssl_key s)"
  using assms by (simp_all add: get_quorum_cert_def get_quorum_key_def get_ssl_cert_def get_ssl_key_def)

lemma getters_supplied:
  assumes "generate_root_ca cfg = Some False"
  shows "get_quorum_cert x cfg s = get_quorum_cert x cfg s'"
    and "get_quorum_key x cfg s = get_quorum_key x cfg s'"
    and "get_ssl_cert x cfg s = get_ssl_cert x cfg s'"
    and "get_ssl_key x cfg s = get_ssl_key x cfg s'"
  using assms by (simp_all add: get_quorum_cert_def get_quorum_key_def get_ssl_cert_def get_ssl_key_def)

lemma create_quorum_keystore_skip:
  "quorum_cert (ks w) = [] \<or> quorum_key (ks w) = [] \<Longrightarrow> create_quorum_keystore x cfg w = Inr w"
  by (auto simp: create_quorum_keystore_def)

lemma create_ssl_keystore_skip:
  "ssl_cert (ks w) = [] \<or> ssl_key (ks w) = [] \<Longrightarrow> create_ssl_keystore x cfg w = Inr w"
  by (auto simp: create_ssl_keystore_def)

lemma create_quorum_keystore_run:
  assumes "create_quorum_keystore x cfg w = Inr w'"
    and "quorum_cert (ks w) \<noteq> []" and "quorum_key (ks w) \<noteq> []"
  shows "\<exists>c k u g. get_quorum_cert x cfg (ks w) = Inr c \<and> get_quorum_key x cfg (ks w) = Inr k \<and>
           w' = w\<lparr>ks := (ks w)\<lparr>ks_zookeeper_pwd := genRandomPassword x None (tick w)\<rparr>,
                  tick := tick w + 2,
                  log := log w @ [KeystoreWritten (get_quorum_keystore cfg)
                    (genRandomPassword x None (tick w)) c k u g
                    (genRandomPassword x (Some 6) (Suc (tick w)))]\<rparr>"
  using assms
  by (auto simp: create_quorum_keystore_def Let_def and_then_eq_Inr lookup_eq_Inr
      get_quorum_cert_def get_quorum_key_def split: if_splits)

lemma create_ssl_keystore_run:
  assumes "create_ssl_keystore x cfg w = Inr w'"
    and "ssl_cert (ks w) \<noteq> []" and "ssl_key (ks w) \<noteq> []"
  shows "\<exists>c k u g. get_ssl_cert x cfg (ks w) = Inr c \<and> get_ssl_key x cfg (ks w) = Inr k \<and>
           w' = w\<lparr>ks := (ks w)\<lparr>ks_password := Some (genRandomPassword x None (tick w))\<rparr>,
                  tick := tick w + 2,
                  log := log w @ [KeystoreWritten (get_ssl_keystore cfg)
                    (genRandomPassword x None (tick w)) c k u g
                    (genRandomPassword x (Some 6) (Suc (tick w)))]\<rparr>"
  using assms
  by (auto simp: create_ssl_keystore_def Let_def and_then_eq_Inr lookup_eq_Inr
      get_ssl_cert_def get_ssl_key_def split: if_splits)

lemma create_quorum_keystore_keeps:
  assumes "create_quorum_keystore x cfg w = Inr w'"
  shows "material (ks w') = material (ks w)" "ks_password (ks w') = ks_password (ks w)"
    "ts_password (ks w') = ts_password (ks w)" "ts_zookeeper_pwd (ks w') = ts_zookeeper_pwd (ks w)"
proof -
  consider "quorum_cert (ks w) = [] \<or> quorum_key (ks w) = []"
    | "quorum_cert (ks w) \<noteq> []" "quorum_key (ks w) \<noteq> []"
    by blast
  then have "material (ks w') = material (ks w) \<and> ks_password (ks w') = ks_password (ks w) \<and>
    ts_password (ks w') = ts_password (ks w) \<and> ts_zookeeper_pwd (ks w') = ts_zookeeper_pwd (ks w)"
  proof cases
    case 1
    with assms show ?thesis
      by (simp add: create_quorum_keystore_skip)
  next
    case 2
    from create_quorum_keystore_run [OF assms 2] show ?thesis
      by (auto simp: material_def)
  qed
  then show "material (ks w') = material (ks w)" "ks_password (ks w') = ks_password (ks w)"
    "ts_password (ks w') = ts_password (ks w)" "ts_zookeeper_pwd (ks w') = ts_zookeeper_pwd (ks w)"
    by simp_all
qed

lemma create_ssl_keystore_keeps:
  assumes "create_ssl_keystore x cfg w = Inr w'"
  shows "material (ks w') = material (ks w)" "ks_zookeeper_pwd (ks w') = ks_zookeeper_pwd (ks w)"
    "ts_password (ks w') = ts_password (ks w)" "ts_zookeeper_pwd (ks w') = ts_zookeeper_pwd (ks w)"
proof -
  consider "ssl_cert (ks w) = [] \<or> ssl_key (ks w) = []"
    | "ssl_cert (ks w) \<noteq> []" "ssl_key (ks w) \<noteq> []"
    by blast
  then have "material (ks w') = material (ks w) \<and> ks_zookeeper_pwd (ks w') = ks_zookeeper_pwd (ks w) \<and>
    ts_password (ks w') = ts_password (ks w) \<and> ts_zookeeper_pwd (ks w') = ts_zookeeper_pwd (ks w)"
  proof cases
    case 1
    with assms show ?thesis
      by (simp add: create_ssl_keystore_skip)
  next
    case 2
    from create_ssl_keystore_run [OF assms 2] show ?thesis
      by (auto simp: material_def)
  qed
  then show "material (ks w') = material (ks w)" "ks_zookeeper_pwd (ks w') = ks_zookeeper_pwd (ks w)"
    "ts_password (ks w') = ts_password (ks w)" "ts_zookeeper_pwd (ks w') = ts_zookeeper_pwd (ks w)"
    by simp_all
qed

lemma keystore_writes_append [simp]:
  "keystore_writes (a @ b) = keystore_writes a @ keystore_writes b"
  by (simp add: keystore_writes_def List.map_filter_def)

lemma keystore_writes_simps [simp]:
  "keystore_writes [] = []"
  "keystore_writes (KeystoreWritten p q c k u g f # evs) = (p, q, c, k) # keystore_writes evs"
  "keystore_writes (SelfSigned n u g # evs) = keystore_writes evs"
  by (simp_all add: keystore_writes_def List.map_filter_simps keystore_write_def)

lemma getters_agree_material:
  assumes "generate_root_ca cfg = Some g" and "getters_agree x cfg s" and "material s' = material s"
  shows "getters_agree x cfg s'"
proof (cases g)
  case True
  with assms(1) show ?thesis
    by (simp add: getters_agree_def getters_generated)
next
  case False
  with assms(1) have sup: "generate_root_ca cfg = Some False"
    by simp
  from assms(2,3) show ?thesis
    unfolding getters_agree_def material_def
    using getters_supplied [OF sup, of x s' s] by simp
qed

lemma create_quorum_keystore_effect:
  assumes run: "create_quorum_keystore x cfg w = Inr w'"
    and agree: "getters_agree x cfg (ks w)"
  shows "\<exists>evs. log w' = log w @ evs \<and>
           keystore_writes evs =
             (if quorum_cert (ks w) \<noteq> [] \<and> quorum_key (ks w) \<noteq> []
              then [(get_quorum_keystore cfg, genRandomPassword x None (tick w),
                     quorum_cert (ks w), quorum_key (ks w))]
              else [])"
    and "tick w' = tick w + (if quorum_cert (ks w) \<noteq> [] \<and> quorum_key (ks w) \<noteq> [] then 2 else 0)"
    and "ks_zookeeper_pwd (ks w') =
           (if quorum_cert (ks w) \<noteq> [] \<and> quorum_key (ks w) \<noteq> []
            then genRandomPassword x None (tick w) else ks_zookeeper_pwd (ks w))"
proof -
  consider (skip) "quorum_cert (ks w) = [] \<or> quorum_key (ks w) = []"
    | (pop) "quorum_cert (ks w) \<noteq> []" "quorum_key (ks w) \<noteq> []"
    by blast
  then have "(\<exists>evs. log w' = log w @ evs \<and>
           keystore_writes evs =
             (if quorum_cert (ks w) \<noteq> [] \<and> quorum_key (ks w) \<noteq> []
              then [(get_quorum_keystore cfg, genRandomPassword x None (tick w),
                     quorum_cert (ks w), quorum_key (ks w))]
              else [])) \<and>
     tick w' = tick w + (if quorum_cert (ks w) \<noteq> [] \<and> quorum_key (ks w) \<noteq> [] then 2 else 0) \<and>
     ks_zookeeper_pwd (ks w') =
           (if quorum_cert (ks w) \<noteq> [] \<and> quorum_key (ks w) \<noteq> []
            then genRandomPassword x None (tick w) else ks_zookeeper_pwd (ks w))"
  proof cases
    case skip
    with run have "w' = w"
      by (simp add: create_quorum_keystore_skip)
    with skip show ?thesis
      by auto
  next
    case pop
    from create_quorum_keystore_run [OF run pop] agree pop show ?thesis
      by (auto simp: getters_agree_def)
  qed
  then show "\<exists>evs. log w' = log w @ evs \<and>
           keystore_writes evs =
             (if quorum_cert (ks w) \<noteq> [] \<and> quorum_key (ks w) \<noteq> []
              then [(get_quorum_keystore cfg, genRandomPassword x None (tick w),
                     quorum_cert (ks w), quorum_key (ks w))]
              else [])"
    and "tick w' = tick w + (if quorum_cert (ks w) \<noteq> [] \<and> quorum_key (ks w) \<noteq> [] then 2 else 0)"
    and "ks_zookeeper_pwd (ks w') =
           (if quorum_cert (ks w) \<noteq> [] \<and> quorum_key (ks w) \<noteq> []
            then genRandomPassword x None (tick w) else ks_zookeeper_pwd (ks w))"
    by blast+
qed

lemma create_ssl_keystore_effect:
  assumes run: "create_ssl_keystore x cfg w = Inr w'"
    and agree: "getters_agree x cfg (ks w)"
  shows "\<exists>evs. log w' = log w @ evs \<and>
           keystore_writes evs =
             (if ssl_cert (ks w) \<noteq> [] \<and> ssl_key (ks w) \<noteq> []
              then [(get_ssl_keystore cfg, genRandomPassword x None (tick w),
                     ssl_cert (ks w), ssl_key (ks w))]
              else [])"
    and "tick w' = tick w + (if ssl_cert (ks w) \<noteq> [] \<and> ssl_key (ks w) \<noteq> [] then 2 else 0)"
    and "ks_password (ks w') =
           (if ssl_cert (ks w) \<noteq> [] \<and> ssl_key (ks w) \<noteq> []
            then Some (genRandomPassword x None (tick w)) else ks_password (ks w))"
proof -
  consider (skip) "ssl_cert (ks w) = [] \<or> ssl_key (ks w) = []"
    | (pop) "ssl_cert (ks w) \<noteq> []" "ssl_key (ks w) \<noteq> []"
    by blast
  then have "(\<exists>evs. log w' = log w @ evs \<and>
           keystore_writes evs =
             (if ssl_cert (ks w) \<noteq> [] \<and> ssl_key (ks w) \<noteq> []
              then [(get_ssl_keystore cfg, genRandomPassword x None (tick w),
                     ssl_cert (ks w), ssl_key (ks w))]
              else [])) \<and>
     tick w' = tick w + (if ssl_cert (ks w) \<noteq> [] \<and> ssl_key (ks w) \<noteq> [] then 2 else 0) \<and>
     ks_password (ks w') =
           (if ssl_cert (ks w) \<noteq> [] \<and> ssl_key (ks w) \<noteq> []
            then Some (genRandomPassword x None (tick w)) else ks_password (ks w))"
  proof cases
    case skip
    with run have "w' = w"
      by (simp add: create_ssl_keystore_skip)
    with skip show ?thesis
      by auto
  next
    case pop
    from create_ssl_keystore_run [OF run pop] agree pop show ?thesis
      by (auto simp: getters_agree_def)
  qed
  then show "\<exists>evs. log w' = log w @ evs \<and>
           keystore_writes evs =
             (if ssl_cert (ks w) \<noteq> [] \<and> ssl_key (ks w) \<noteq> []
              then [(get_ssl_keystore cfg, genRandomPassword x None (tick w),
                     ssl_cert (ks w), ssl_key (ks w))]
              else [])"
    and "tick w' = tick w + (if ssl_cert (ks w) \<noteq> [] \<and> ssl_key (ks w) \<noteq> [] then 2 else 0)"
    and "ks_password (ks w') =
           (if ssl_cert (ks w) \<noteq> [] \<and> ssl_key (ks w) \<noteq> []
            then Some (genRandomPassword x None (tick w)) else ks_password (ks w))"
    by blast+
qed


text \<open>Both keystore blocks, run on a world whose getters return the stored material.\<close>

lemma rebuild_effect:
  assumes q: "create_quorum_keystore x cfg wa = Inr wb"
    and s: "create_ssl_keystore x cfg wb = Inr w1"
    and mode: "generate_root_ca cfg = Some g"
    and agree: "getters_agree x cfg (ks wa)"
  shows "material (ks w1) = material (ks wa)"
    and "getters_agree x cfg (ks w1)"
    and "ts_password (ks w1) = ts_password (ks wa)"
    and "tick wa \<le> tick w1"
    and "\<exists>evs. log w1 = log wa @ evs \<and>
           keystore_writes evs =
             (if quorum_cert (ks wa) \<noteq> [] \<and> quorum_key (ks wa) \<noteq> []
              then [(get_quorum_keystore cfg, genRandomPassword x None (tick wa),
                     quorum_cert (ks wa), quorum_key (ks wa))] else []) @
             (if ssl_cert (ks wa) \<noteq> [] \<and> ssl_key (ks wa) \<noteq> []
              then [(get_ssl_keystore cfg, genRandomPassword x None (tick wb),
                     ssl_cert (ks wa), ssl_key (ks wa))] else [])"
    and "ks_zookeeper_pwd (ks w1) =
           (if quorum_cert (ks wa) \<noteq> [] \<and> quorum_key (ks wa) \<noteq> []
            then genRandomPassword x None (tick wa) else ks_zookeeper_pwd (ks wa))"
    and "ks_password (ks w1) =
           (if ssl_cert (ks wa) \<noteq> [] \<and> ssl_key (ks wa) \<noteq> []
            then Some (genRandomPassword x None (tick wb)) else ks_password (ks wa))"
    and "quorum_cert (ks wa) \<noteq> [] \<and> quorum_key (ks wa) \<noteq> [] \<Longrightarrow> tick wa < tick w1"
    and "ssl_cert (ks wa) \<noteq> [] \<and> ssl_key (ks wa) \<noteq> [] \<Longrightarrow> tick wa \<le> tick wb \<and> tick wb < tick w1"
proof -
  have mb: "material (ks wb) = material (ks wa)"
    by (rule create_quorum_keystore_keeps [OF q])
  have agree_b: "getters_agree x cfg (ks wb)"
    by (rule getters_agree_material [OF mode agree mb])
  show m1: "material (ks w1) = material (ks wa)"
    using create_ssl_keystore_keeps(1) [OF s] mb by simp
  show "getters_agree x cfg (ks w1)"
    by (rule getters_agree_material [OF mode agree m1])
  show "ts_password (ks w1) = ts_password (ks wa)"
    using create_ssl_keystore_keeps(3) [OF s] create_quorum_keystore_keeps(3) [OF q] by simp
  have fields: "ssl_cert (ks wb) = ssl_cert (ks wa)" "ssl_key (ks wb) = ssl_key (ks wa)"
    using mb by (simp_all add: material_def)
  note tq = create_quorum_keystore_effect(2) [OF q agree]
  note ts = create_ssl_keystore_effect(2) [OF s agree_b]
  show "tick wa \<le> tick w1"
    using tq ts by simp
  from create_quorum_keystore_effect(1) [OF q agree] obtain e1 where
    e1: "log wb = log wa @ e1"
      "keystore_writes e1 =
         (if quorum_cert (ks wa) \<noteq> [] \<and> quorum_key (ks wa) \<noteq> []
          then [(get_quorum_keystore cfg, genRandomPassword x None (tick wa),
                 quorum_cert (ks wa), quorum_key (ks wa))]
          else [])"
    by blast
  from create_ssl_keystore_effect(1) [OF s agree_b] obtain e2 where
    e2: "log w1 = log wb @ e2"
      "keystore_writes e2 =
         (if ssl_cert (ks wb) \<noteq> [] \<and> ssl_key (ks wb) \<noteq> []
          then [(get_ssl_keystore cfg, genRandomPassword x None (tick wb),
                 ssl_cert (ks wb), ssl_key (ks wb))]
          else [])"
    by blast
  have "log w1 = log wa @ (e1 @ e2)"
    using e1(1) e2(1) by simp
  moreover have "keystore_writes (e1 @ e2) =
             (if quorum_cert (ks wa) \<noteq> [] \<and> quorum_key (ks wa) \<noteq> []
              then [(get_quorum_keystore cfg, genRandomPassword x None (tick wa),
                     quorum_cert (ks wa), quorum_key (ks wa))] else []) @
             (if ssl_cert (ks wa) \<noteq> [] \<and> ssl_key (ks wa) \<noteq> []
              then [(get_ssl_keystore cfg, genRandomPassword x None (tick wb),
                     ssl_cert (ks wa), ssl_key (ks wa))] else [])"
    using e1(2) e2(2) fields by simp
  ultimately show "\<exists>evs. log w1 = log wa @ evs \<and>
           keystore_writes evs =
             (if quorum_cert (ks wa) \<noteq> [] \<and> quorum_key (ks wa) \<noteq> []
              then [(get_quorum_keystore cfg, genRandomPassword x None (tick wa),
                     quorum_cert (ks wa), quorum_key (ks wa))] else []) @
             (if ssl_cert (ks wa) \<noteq> [] \<and> ssl_key (ks wa) \<noteq> []
              then [(get_ssl_keystore cfg, genRandomPassword x None (tick wb),
                     ssl_cert (ks wa), ssl_key (ks wa))] else [])"
    by blast
  show "ks_zookeeper_pwd (ks w1) =
           (if quorum_cert (ks wa) \<noteq> [] \<and> quorum_key (ks wa) \<noteq> []
            then genRandomPassword x None (tick wa) else ks_zookeeper_pwd (ks wa))"
    using create_quorum_keystore_effect(3) [OF q agree] create_ssl_keystore_keeps(2) [OF s]
    by simp
  show "ks_password (ks w1) =
           (if ssl_cert (ks wa) \<noteq> [] \<and> ssl_key (ks wa) \<noteq> []
            then Some (genRandomPassword x None (tick wb)) else ks_password (ks wa))"
    using create_ssl_keystore_effect(3) [OF s agree_b] create_quorum_keystore_keeps(2) [OF q] fields
    by simp
  show "quorum_cert (ks wa) \<noteq> [] \<and> quorum_key (ks wa) \<noteq> [] \<Longrightarrow> tick wa < tick w1"
    using tq ts by simp
  show "ssl_cert (ks wa) \<noteq> [] \<and> ssl_key (ks wa) \<noteq> [] \<Longrightarrow> tick wa \<le> tick wb \<and> tick wb < tick w1"
    using tq ts fields by simp
qed


subsection \<open>The paths through keystore generation\<close>

lemma generate_keystores_cases:
  assumes "generate_keystores x cfg w = Inr w1"
  obtains (early) "w1 = w"
      "(generate_root_ca cfg = Some True \<and> material_complete (ks w)) \<or>
       (generate_root_ca cfg = Some False \<and> certs_unchanged x cfg (ks w) = Inr True)"
    | (generated) wa wb where "generate_root_ca cfg = Some True" "\<not> material_complete (ks w)"
        "generate_material x cfg w = Inr wa" "create_quorum_keystore x cfg wa = Inr wb"
        "create_ssl_keystore x cfg wb = Inr w1"
    | (supplied) wa wb where "generate_root_ca cfg = Some False"
        "certs_unchanged x cfg (ks w) = Inr False"
        "store_material x cfg w = Inr wa" "create_quorum_keystore x cfg wa = Inr wb"
        "create_ssl_keystore x cfg wb = Inr w1"
proof -
  from assms obtain gen where gen: "generate_root_ca cfg = Some gen"
    by (auto simp: generate_keystores_def and_then_eq_Inr lookup_eq_Inr)
  show thesis
  proof (cases gen)
    case True
    show thesis
    proof (cases "material_complete (ks w)")
      case complete: True
      with assms gen True have "w1 = w"
        by (simp add: generate_keystores_def)
      with gen True complete show thesis
        by (intro early) simp_all
    next
      case False
      with assms gen True obtain wa wb where "generate_material x cfg w = Inr wa"
        "create_quorum_keystore x cfg wa = Inr wb" "create_ssl_keystore x cfg wb = Inr w1"
        by (auto simp: generate_keystores_def and_then_eq_Inr)
      with gen True False show thesis
        by (intro generated) simp_all
    qed
  next
    case False
    with assms gen obtain same where same: "certs_unchanged x cfg (ks w) = Inr same"
      by (auto simp: generate_keystores_def and_then_eq_Inr)
    show thesis
    proof (cases same)
      case True
      with assms gen False same have "w1 = w"
        by (simp add: generate_keystores_def)
      with gen False same True show thesis
        by (intro early) simp_all
    next
      case changed: False
      with assms gen False same obtain wa wb where "store_material x cfg w = Inr wa"
        "create_quorum_keystore x cfg wa = Inr wb" "create_ssl_keystore x cfg wb = Inr w1"
        by (auto simp: generate_keystores_def and_then_eq_Inr)
      with gen False same changed show thesis
        by (intro supplied) simp_all
    qed
  qed
qed

lemma generate_material_run:
  assumes "generate_material x cfg w = Inr wa"
  shows "quorum_cert (ks wa) = fst (generateSelfSigned x ''quorum-zookeeper-root-ca'' (tick w))"
    and "quorum_key (ks wa) = snd (generateSelfSigned x ''quorum-zookeeper-root-ca'' (tick w))"
    and "ssl_cert (ks wa) = fst (generateSelfSigned x ''ssl-zookeeper-root-ca'' (Suc (tick w)))"
    and "ssl_key (ks wa) = snd (generateSelfSigned x ''ssl-zookeeper-root-ca'' (Suc (tick w)))"
    and "ts_password (ks wa) = ts_password (ks w)"
    and "ks_password (ks wa) = ks_password (ks w)"
    and "ks_zookeeper_pwd (ks wa) = ks_zookeeper_pwd (ks w)"
    and "tick wa = tick w + 2"
    and "\<exists>pre. log wa = log w @ pre \<and> keystore_writes pre = []"
  using assms
  by (auto simp: generate_material_def and_then_eq_Inr lookup_eq_Inr Let_def
      case_prod_beta keystore_writes_def keystore_write_def List.map_filter_simps)

lemma store_material_run:
  assumes "generate_root_ca cfg = Some False" and "store_material x cfg w = Inr wa"
  shows "get_quorum_cert x cfg s = Inr (quorum_cert (ks wa))"
    and "get_quorum_key x cfg s = Inr (quorum_key (ks wa))"
    and "get_ssl_cert x cfg s = Inr (ssl_cert (ks wa))"
    and "get_ssl_key x cfg s = Inr (ssl_key (ks wa))"
    and "ts_password (ks wa) = ts_password (ks w)"
    and "ks_password (ks wa) = ks_password (ks w)"
    and "ks_zookeeper_pwd (ks wa) = ks_zookeeper_pwd (ks w)"
    and "tick wa = tick w" and "log wa = log w"
  using assms
  by (auto simp: store_material_def and_then_eq_Inr lookup_eq_Inr Let_def
      get_quorum_cert_def get_quorum_key_def get_ssl_cert_def get_ssl_key_def
      split: option.splits)

lemma certs_unchanged_True:
  assumes "get_quorum_cert x cfg s = Inr (quorum_cert s)"
    and "get_quorum_key x cfg s = Inr (quorum_key s)"
    and "get_ssl_cert x cfg s = Inr (ssl_cert s)"
  shows "certs_unchanged x cfg s = Inr True"
  using assms by (simp add: certs_unchanged_def)

lemma certs_unchanged_False:
  assumes "certs_unchanged x cfg s = Inr False"
  shows "get_quorum_cert x cfg s \<noteq> Inr (quorum_cert s) \<or>
         get_quorum_key x cfg s \<noteq> Inr (quorum_key s) \<or>
         get_ssl_cert x cfg s \<noteq> Inr (ssl_cert s)"
  using assms by (auto simp: certs_unchanged_def)

lemma material_complete_cong:
  "material s = material s' \<Longrightarrow> material_complete s = material_complete s'"
  by (simp add: material_def material_complete_def)


text \<open>The step that replaces the stored material, in either mode.\<close>

lemma material_step:
  assumes run: "generate_keystores x cfg w = Inr w1" and changed: "w1 \<noteq> w"
    and gen: "generator_nonempty x"
  obtains g wa wb where "generate_root_ca cfg = Some g"
    "create_quorum_keystore x cfg wa = Inr wb" "create_ssl_keystore x cfg wb = Inr w1"
    "getters_agree x cfg (ks wa)" "material (ks wa) \<noteq> material (ks w)"
    "g \<longrightarrow> material_complete (ks wa)"
    "tick w \<le> tick wa" "ts_password (ks wa) = ts_password (ks w)"
    "ks_password (ks wa) = ks_password (ks w)" "ks_zookeeper_pwd (ks wa) = ks_zookeeper_pwd (ks w)"
    "\<exists>pre. log wa = log w @ pre \<and> keystore_writes pre = []"
  using run
proof (cases rule: generate_keystores_cases)
  case early
  with changed show ?thesis
    by simp
next
  case (generated wa wb)
  note m = generate_material_run [OF generated(3)]
  have agree: "getters_agree x cfg (ks wa)"
    using generated(1) by (simp add: getters_agree_def getters_generated)
  have complete: "material_complete (ks wa)"
    using m(1-4) gen by (simp add: material_complete_def generator_nonempty_def)
  with generated(2) have diff: "material (ks wa) \<noteq> material (ks w)"
    using material_complete_cong by blast
  show ?thesis
    using that [OF generated(1) generated(4) generated(5) agree diff] complete m by simp
next
  case (supplied wa wb)
  note m = store_material_run [OF supplied(1) supplied(3)]
  have agree: "getters_agree x cfg (ks wa)"
    using m(1-4) by (simp add: getters_agree_def)
  from certs_unchanged_False [OF supplied(2)] m(1-3) [of "ks w"]
  have diff: "material (ks wa) \<noteq> material (ks w)"
    by (auto simp: material_def)
  show ?thesis
    using that [OF supplied(1) supplied(4) supplied(5) agree diff] m by simp
qed

lemma rebuild_step:
  assumes run: "generate_keystores x cfg w = Inr w1" and changed: "w1 \<noteq> w"
  obtains g wa wb where "generate_root_ca cfg = Some g"
    "create_quorum_keystore x cfg wa = Inr wb" "create_ssl_keystore x cfg wb = Inr w1"
    "getters_agree x cfg (ks wa)"
    "tick w \<le> tick wa" "ts_password (ks wa) = ts_password (ks w)"
    "ks_password (ks wa) = ks_password (ks w)" "ks_zookeeper_pwd (ks wa) = ks_zookeeper_pwd (ks w)"
    "\<exists>pre. log wa = log w @ pre \<and> keystore_writes pre = []"
  using run
proof (cases rule: generate_keystores_cases)
  case early
  with changed show ?thesis
    by simp
next
  case (generated wa wb)
  note m = generate_material_run [OF generated(3)]
  have agree: "getters_agree x cfg (ks wa)"
    using generated(1) by (simp add: getters_agree_def getters_generated)
  show ?thesis
    using that [OF generated(1) generated(4) generated(5) agree] m by simp
next
  case (supplied wa wb)
  note m = store_material_run [OF supplied(1) supplied(3)]
  have agree: "getters_agree x cfg (ks wa)"
    using m(1-4) by (simp add: getters_agree_def)
  show ?thesis
    using that [OF supplied(1) supplied(4) supplied(5) agree] m by simp
qed

lemma generate_keystores_fixpoint:
  assumes "generate_root_ca cfg = Some g" and "getters_agree x cfg (ks w)"
    and "g \<longrightarrow> material_complete (ks w)"
  shows "generate_keystores x cfg w = Inr w"
proof (cases g)
  case True
  with assms show ?thesis
    by (simp add: generate_keystores_def)
next
  case False
  from assms(2) have "certs_unchanged x cfg (ks w) = Inr True"
    by (simp add: getters_agree_def certs_unchanged_True)
  with False assms(1) show ?thesis
    by (simp add: generate_keystores_def)
qed


text \<open>What a run leaves unchanged, and which keystores it can have packaged.\<close>

lemma run_summary:
  assumes run: "generate_keystores x cfg w = Inr w1"
  shows "ts_password (ks w1) = ts_password (ks w)"
    and "ks_password (ks w1) =
           (if w1 \<noteq> w \<and> ssl_cert (ks w1) \<noteq> [] \<and> ssl_key (ks w1) \<noteq> []
            then ks_password (ks w1) else ks_password (ks w))"
    and "ks_zookeeper_pwd (ks w1) =
           (if w1 \<noteq> w \<and> quorum_cert (ks w1) \<noteq> [] \<and> quorum_key (ks w1) \<noteq> []
            then ks_zookeeper_pwd (ks w1) else ks_zookeeper_pwd (ks w))"
    and "set (packaged w w1) \<subseteq>
           (if quorum_cert (ks w1) \<noteq> [] \<and> quorum_key (ks w1) \<noteq> []
            then {(quorum_cert (ks w1), quorum_key (ks w1))} else {}) \<union>
           (if ssl_cert (ks w1) \<noteq> [] \<and> ssl_key (ks w1) \<noteq> []
            then {(ssl_cert (ks w1), ssl_key (ks w1))} else {})"
    and "ssl_cert (ks w1) \<noteq> [] \<and> ssl_key (ks w1) \<noteq> [] \<and> w1 \<noteq> w \<longrightarrow> ks_password (ks w1) \<noteq> None"
proof -
  have "ts_password (ks w1) = ts_password (ks w) \<and>
    ks_password (ks w1) =
           (if w1 \<noteq> w \<and> ssl_cert (ks w1) \<noteq> [] \<and> ssl_key (ks w1) \<noteq> []
            then ks_password (ks w1) else ks_password (ks w)) \<and>
    ks_zookeeper_pwd (ks w1) =
           (if w1 \<noteq> w \<and> quorum_cert (ks w1) \<noteq> [] \<and> quorum_key (ks w1) \<noteq> []
            then ks_zookeeper_pwd (ks w1) else ks_zookeeper_pwd (ks w)) \<and>
    set (packaged w w1) \<subseteq>
           (if quorum_cert (ks w1) \<noteq> [] \<and> quorum_key (ks w1) \<noteq> []
            then {(quorum_cert (ks w1), quorum_key (ks w1))} else {}) \<union>
           (if ssl_cert (ks w1) \<noteq> [] \<and> ssl_key (ks w1) \<noteq> []
            then {(ssl_cert (ks w1), ssl_key (ks w1))} else {}) \<and>
    (ssl_cert (ks w1) \<noteq> [] \<and> ssl_key (ks w1) \<noteq> [] \<and> w1 \<noteq> w \<longrightarrow> ks_password (ks w1) \<noteq> None)"
  proof (cases "w1 = w")
    case True
    then show ?thesis
      by (simp add: packaged_def new_events_def)
  next
    case False
    from run False obtain g wa wb where
      mode: "generate_root_ca cfg = Some g"
      and q: "create_quorum_keystore x cfg wa = Inr wb"
      and s: "create_ssl_keystore x cfg wb = Inr w1"
      and agree: "getters_agree x cfg (ks wa)"
      and keep: "ts_password (ks wa) = ts_password (ks w)"
        "ks_password (ks wa) = ks_password (ks w)" "ks_zookeeper_pwd (ks wa) = ks_zookeeper_pwd (ks w)"
      and pre: "\<exists>pre. log wa = log w @ pre \<and> keystore_writes pre = []"
      by (rule rebuild_step)
    note r = rebuild_effect [OF q s mode agree]
    have fields: "quorum_cert (ks w1) = quorum_cert (ks wa)" "quorum_key (ks w1) = quorum_key (ks wa)"
      "ssl_cert (ks w1) = ssl_cert (ks wa)" "ssl_key (ks w1) = ssl_key (ks wa)"
      using r(1) by (simp_all add: material_def)
    from pre r(5) obtain pre evs where
      logs: "log wa = log w @ pre" "keystore_writes pre = []" "log w1 = log wa @ evs"
      and writes: "keystore_writes evs =
               (if quorum_cert (ks wa) \<noteq> [] \<and> quorum_key (ks wa) \<noteq> []
                then [(get_quorum_keystore cfg, genRandomPassword x None (tick wa),
                       quorum_cert (ks wa), quorum_key (ks wa))] else []) @
               (if ssl_cert (ks wa) \<noteq> [] \<and> ssl_key (ks wa) \<noteq> []
                then [(get_ssl_keystore cfg, genRandomPassword x None (tick wb),
                       ssl_cert (ks wa), ssl_key (ks wa))] else [])"
      by blast
    have new: "keystore_writes (new_events w w1) = keystore_writes evs"
      using logs by (simp add: new_events_def)
    have "set (packaged w w1) \<subseteq>
           (if quorum_cert (ks w1) \<noteq> [] \<and> quorum_key (ks w1) \<noteq> []
            then {(quorum_cert (ks w1), quorum_key (ks w1))} else {}) \<union>
           (if ssl_cert (ks w1) \<noteq> [] \<and> ssl_key (ks w1) \<noteq> []
            then {(ssl_cert (ks w1), ssl_key (ks w1))} else {})"
      unfolding packaged_def new writes fields by auto
    with False keep r(3) r(6) r(7) fields show ?thesis
      by simp
  qed
  then show "ts_password (ks w1) = ts_password (ks w)"
    and "ks_password (ks w1) =
           (if w1 \<noteq> w \<and> ssl_cert (ks w1) \<noteq> [] \<and> ssl_key (ks w1) \<noteq> []
            then ks_password (ks w1) else ks_password (ks w))"
    and "ks_zookeeper_pwd (ks w1) =
           (if w1 \<noteq> w \<and> quorum_cert (ks w1) \<noteq> [] \<and> quorum_key (ks w1) \<noteq> []
            then ks_zookeeper_pwd (ks w1) else ks_zookeeper_pwd (ks w))"
    and "set (packaged w w1) \<subseteq>
           (if quorum_cert (ks w1) \<noteq> [] \<and> quorum_key (ks w1) \<noteq> []
            then {(quorum_cert (ks w1), quorum_key (ks w1))} else {}) \<union>
           (if ssl_cert (ks w1) \<noteq> [] \<and> ssl_key (ks w1) \<noteq> []
            then {(ssl_cert (ks w1), ssl_key (ks w1))} else {})"
    and "ssl_cert (ks w1) \<noteq> [] \<and> ssl_key (ks w1) \<noteq> [] \<and> w1 \<noteq> w \<longrightarrow> ks_password (ks w1) \<noteq> None"
    by blast+
qed


subsection \<open>Keystore generation is idempotent, and rebuilds with the material\<close>

lemma getters_ignore_passwords [simp]:
  "get_quorum_cert x cfg (s\<lparr>ks_zookeeper_pwd := v\<rparr>) = get_quorum_cert x cfg s"
  "get_quorum_key x cfg (s\<lparr>ks_zookeeper_pwd := v\<rparr>) = get_quorum_key x cfg s"
  "get_ssl_cert x cfg (s\<lparr>ks_password := v'\<rparr>) = get_ssl_cert x cfg s"
  "get_ssl_key x cfg (s\<lparr>ks_password := v'\<rparr>) = get_ssl_key x cfg s"
  by (simp_all add: get_quorum_cert_def get_quorum_key_def get_ssl_cert_def get_ssl_key_def
      cong: if_cong)

lemma create_quorum_keystore_succeeds:
  assumes "getters_agree x cfg (ks w)" and "cfg_user cfg = Some u" and "cfg_group cfg = Some g"
  shows "\<exists>w'. create_quorum_keystore x cfg w = Inr w'"
  using assms by (simp add: create_quorum_keystore_def getters_agree_def Let_def)

lemma create_ssl_keystore_succeeds:
  assumes "getters_agree x cfg (ks w)" and "cfg_user cfg = Some u" and "cfg_group cfg = Some g"
  shows "\<exists>w'. create_ssl_keystore x cfg w = Inr w'"
  using assms by (simp add: create_ssl_keystore_def getters_agree_def Let_def)

text \<open>Both blocks succeed on a world whose getters return the stored material.\<close>

lemma rebuild_succeeds:
  assumes mode: "generate_root_ca cfg = Some m" and agree: "getters_agree x cfg (ks wa)"
    and user: "cfg_user cfg = Some u" and grp: "cfg_group cfg = Some g"
  shows "\<exists>wb w1. create_quorum_keystore x cfg wa = Inr wb \<and> create_ssl_keystore x cfg wb = Inr w1"
proof -
  from create_quorum_keystore_succeeds [OF agree user grp] obtain wb where
    q: "create_quorum_keystore x cfg wa = Inr wb"
    by blast
  have "getters_agree x cfg (ks wb)"
    by (rule getters_agree_material [OF mode agree create_quorum_keystore_keeps(1) [OF q]])
  from create_ssl_keystore_succeeds [OF this user grp] q show ?thesis
    by blast
qed

lemma generate_material_succeeds:
  assumes "cfg_user cfg = Some u" and "cfg_group cfg = Some g"
  shows "\<exists>wa. generate_material x cfg w = Inr wa"
  using assms by (simp add: generate_material_def Let_def case_prod_beta)

lemma store_material_succeeds:
  assumes "generate_root_ca cfg = Some False"
    and "get_quorum_cert x cfg (ks w) = Inr qc" and "get_quorum_key x cfg (ks w) = Inr qk"
    and "get_ssl_cert x cfg (ks w) = Inr sc" and "get_ssl_key x cfg (ks w) = Inr sk"
  shows "\<exists>wa. store_material x cfg w = Inr wa \<and> material (ks wa) = (qc, qk, sc, sk)"
proof -
  note s = getters_supplied [OF assms(1)]
  have "get_quorum_key x cfg ((ks w)\<lparr>quorum_cert := qc\<rparr>) = Inr qk"
    using s(2) [of x "(ks w)\<lparr>quorum_cert := qc\<rparr>" "ks w"] assms(3) by simp
  moreover have "get_ssl_cert x cfg ((ks w)\<lparr>quorum_cert := qc, quorum_key := qk\<rparr>) = Inr sc"
    using s(3) [of x "(ks w)\<lparr>quorum_cert := qc, quorum_key := qk\<rparr>" "ks w"] assms(4) by simp
  moreover have "get_ssl_key x cfg ((ks w)\<lparr>quorum_cert := qc, quorum_key := qk, ssl_cert := sc\<rparr>)
      = Inr sk"
    using s(4) [of x "(ks w)\<lparr>quorum_cert := qc, quorum_key := qk, ssl_cert := sc\<rparr>" "ks w"]
      assms(5) by simp
  ultimately show ?thesis
    using assms(2) by (simp add: store_material_def Let_def material_def)
qed

lemma certs_unchanged_supplied:
  assumes "get_quorum_cert x cfg s = Inr qc" and "get_quorum_key x cfg s = Inr qk"
    and "get_ssl_cert x cfg s = Inr sc"
  shows "certs_unchanged x cfg s = Inr ((qc, qk, sc) = (quorum_cert s, quorum_key s, ssl_cert s))"
  using assms by (auto simp: certs_unchanged_def)

text \<open>A run that passes the early returns stores the material and runs both blocks.\<close>

lemma supplied_change_detected:
  assumes mode: "generate_root_ca cfg = Some False"
    and user: "cfg_user cfg = Some u" and grp: "cfg_group cfg = Some g"
    and qc: "get_quorum_cert x cfg (ks w) = Inr qc" and qk: "get_quorum_key x cfg (ks w) = Inr qk"
    and sc: "get_ssl_cert x cfg (ks w) = Inr sc" and sk: "get_ssl_key x cfg (ks w) = Inr sk"
    and diff: "(qc, qk, sc) \<noteq> (quorum_cert (ks w), quorum_key (ks w), ssl_cert (ks w))"
  shows "\<exists>w1. generate_keystores x cfg w = Inr w1 \<and> material (ks w1) = (qc, qk, sc, sk) \<and>
           material (ks w1) \<noteq> material (ks w)"
proof -
  have same: "certs_unchanged x cfg (ks w) = Inr False"
    using certs_unchanged_supplied [OF qc qk sc] diff by simp
  from store_material_succeeds [OF mode qc qk sc sk] obtain wa where
    st: "store_material x cfg w = Inr wa" and m: "material (ks wa) = (qc, qk, sc, sk)"
    by blast
  have agree: "getters_agree x cfg (ks wa)"
    using store_material_run(1-4) [OF mode st] by (simp add: getters_agree_def)
  from rebuild_succeeds [OF mode agree user grp] obtain wb w1 where
    q: "create_quorum_keystore x cfg wa = Inr wb" and s: "create_ssl_keystore x cfg wb = Inr w1"
    by blast
  have run: "generate_keystores x cfg w = Inr w1"
    using mode same st q s by (simp add: generate_keystores_def)
  have m1: "material (ks w1) = (qc, qk, sc, sk)"
    using rebuild_effect(1) [OF q s mode agree] m by simp
  with diff have "material (ks w1) \<noteq> material (ks w)"
    by (auto simp: material_def)
  with run m1 show ?thesis
    by blast
qed

lemma generated_when_incomplete:
  assumes mode: "generate_root_ca cfg = Some True"
    and user: "cfg_user cfg = Some u" and grp: "cfg_group cfg = Some g"
    and gen: "generator_nonempty x"
    and inc: "\<not> material_complete (ks w)"
  shows "\<exists>w1. generate_keystores x cfg w = Inr w1 \<and> material_complete (ks w1) \<and>
           material (ks w1) \<noteq> material (ks w)"
proof -
  from generate_material_succeeds [OF user grp] obtain wa where
    g: "generate_material x cfg w = Inr wa"
    by blast
  have agree: "getters_agree x cfg (ks wa)"
    using mode by (simp add: getters_agree_def getters_generated)
  from rebuild_succeeds [OF mode agree user grp] obtain wb w1 where
    q: "create_quorum_keystore x cfg wa = Inr wb" and s: "create_ssl_keystore x cfg wb = Inr w1"
    by blast
  have run: "generate_keystores x cfg w = Inr w1"
    using mode inc g q s by (simp add: generate_keystores_def)
  have "material_complete (ks wa)"
    using generate_material_run(1-4) [OF g] gen
    by (simp add: material_complete_def generator_nonempty_def)
  then have c: "material_complete (ks w1)"
    using material_complete_cong [OF rebuild_effect(1) [OF q s mode agree]] by simp
  with inc have "material (ks w1) \<noteq> material (ks w)"
    using material_complete_cong by blast
  with run c show ?thesis
    by blast
qed

lemma unchanged_is_noop:
  assumes "generate_root_ca cfg = Some False"
    and "get_quorum_cert x cfg (ks w) = Inr (quorum_cert (ks w))"
    and "get_quorum_key x cfg (ks w) = Inr (quorum_key (ks w))"
    and "get_ssl_cert x cfg (ks w) = Inr (ssl_cert (ks w))"
  shows "generate_keystores x cfg w = Inr w"
  using assms by (simp add: generate_keystores_def certs_unchanged_True)

lemma complete_is_noop:
  assumes "generate_root_ca cfg = Some True" and "material_complete (ks w)"
  shows "generate_keystores x cfg w = Inr w"
  using assms by (simp add: generate_keystores_def)

text \<open>What a run that changed the material has packaged.\<close>

lemma changed_run_rebuilds:
  assumes gen: "generator_nonempty x" and run: "generate_keystores x cfg w = Inr w1"
    and changed: "w1 \<noteq> w"
  shows "material (ks w1) \<noteq> material (ks w)"
    and "quorum_cert (ks w1) \<noteq> [] \<and> quorum_key (ks w1) \<noteq> [] \<longrightarrow>
          fresh_write x w w1 (get_quorum_keystore cfg) (ks_zookeeper_pwd (ks w1))
            (quorum_cert (ks w1)) (quorum_key (ks w1))"
    and "ssl_cert (ks w1) \<noteq> [] \<and> ssl_key (ks w1) \<noteq> [] \<longrightarrow>
          (\<exists>pwd. ks_password (ks w1) = Some pwd \<and>
             fresh_write x w w1 (get_ssl_keystore cfg) pwd (ssl_cert (ks w1)) (ssl_key (ks w1)))"
    and "generate_keystores x cfg w1 = Inr w1"
proof -
  from run changed gen obtain g wa wb where
    mode: "generate_root_ca cfg = Some g"
    and q: "create_quorum_keystore x cfg wa = Inr wb"
    and s: "create_ssl_keystore x cfg wb = Inr w1"
    and agree: "getters_agree x cfg (ks wa)"
    and diff: "material (ks wa) \<noteq> material (ks w)"
    and complete_a: "g \<longrightarrow> material_complete (ks wa)"
    and tick: "tick w \<le> tick wa"
    and pre: "\<exists>pre. log wa = log w @ pre \<and> keystore_writes pre = []"
    by (rule material_step)
  note r = rebuild_effect [OF q s mode agree]
  have fields: "quorum_cert (ks w1) = quorum_cert (ks wa)" "quorum_key (ks w1) = quorum_key (ks wa)"
    "ssl_cert (ks w1) = ssl_cert (ks wa)" "ssl_key (ks w1) = ssl_key (ks wa)"
    using r(1) by (simp_all add: material_def)
  have complete: "g \<longrightarrow> material_complete (ks w1)"
    using complete_a material_complete_cong [OF r(1)] by simp
  show "generate_keystores x cfg w1 = Inr w1"
    by (rule generate_keystores_fixpoint [OF mode r(2) complete])
  show "material (ks w1) \<noteq> material (ks w)"
    using diff r(1) by simp
  from pre r(5) obtain pre evs where
    logs: "log wa = log w @ pre" "keystore_writes pre = []" "log w1 = log wa @ evs"
    and writes: "keystore_writes evs =
             (if quorum_cert (ks wa) \<noteq> [] \<and> quorum_key (ks wa) \<noteq> []
              then [(get_quorum_keystore cfg, genRandomPassword x None (tick wa),
                     quorum_cert (ks wa), quorum_key (ks wa))] else []) @
             (if ssl_cert (ks wa) \<noteq> [] \<and> ssl_key (ks wa) \<noteq> []
              then [(get_ssl_keystore cfg, genRandomPassword x None (tick wb),
                     ssl_cert (ks wa), ssl_key (ks wa))] else [])"
    by blast
  have new: "keystore_writes (new_events w w1) = keystore_writes evs"
    using logs by (simp add: new_events_def)
  show "quorum_cert (ks w1) \<noteq> [] \<and> quorum_key (ks w1) \<noteq> [] \<longrightarrow>
          fresh_write x w w1 (get_quorum_keystore cfg) (ks_zookeeper_pwd (ks w1))
            (quorum_cert (ks w1)) (quorum_key (ks w1))"
    using fields new writes r(6) r(8) tick
    by (auto simp: fresh_write_def)
  show "ssl_cert (ks w1) \<noteq> [] \<and> ssl_key (ks w1) \<noteq> [] \<longrightarrow>
          (\<exists>pwd. ks_password (ks w1) = Some pwd \<and>
             fresh_write x w w1 (get_ssl_keystore cfg) pwd (ssl_cert (ks w1)) (ssl_key (ks w1)))"
    using fields new writes r(7) r(9) tick
    by (auto simp: fresh_write_def)
qed

text \<open>
  Claim C2, amended. Let the certificate generator return non-empty certificates and
  keys, and the options \<^verbatim>\<open>user\<close> and \<^verbatim>\<open>group\<close> be set. A run of \<^verbatim>\<open>_generate_keystores\<close>
  that ends without an exception has reached a fixed point: a second run on the
  resulting world returns that world, so no collaborator is called, no password is drawn
  and the stored passwords stay; and the run changed the world only if it changed the
  stored key material. With the material supplied by the operator: when the four values
  the getters return are the stored ones the run changes nothing; when the quorum
  certificate, the quorum key or the client certificate differs from the stored one, the
  run ends without an exception, stores the four values, and packages the keystore of
  every scope whose certificate and key are both non-empty, with a password drawn in
  this run and stored: also that of a scope whose own certificate and key are the ones
  it had before. With the root CA generated by the charm: when the four stored fields
  are all non-empty the run changes nothing; otherwise it ends without an exception,
  stores a complete set of material and packages both keystores, each with a password
  drawn in this run and stored. A change of the client key alone is left out: it is the
  subject of C1.
\<close>

theorem keystores_rebuilt_with_material:
  assumes gen: "generator_nonempty x"
    and user: "cfg_user cfg = Some u" and grp: "cfg_group cfg = Some g"
  shows
    "(\<forall>w1. generate_keystores x cfg w = Inr w1 \<longrightarrow>
        generate_keystores x cfg w1 = Inr w1 \<and>
        (material (ks w1) = material (ks w) \<longrightarrow> w1 = w)) \<and>
     (generate_root_ca cfg = Some False \<and>
      get_quorum_cert x cfg (ks w) = Inr qc \<and> get_quorum_key x cfg (ks w) = Inr qk \<and>
      get_ssl_cert x cfg (ks w) = Inr sc \<and> get_ssl_key x cfg (ks w) = Inr sk \<longrightarrow>
        ((qc, qk, sc, sk) = material (ks w) \<longrightarrow> generate_keystores x cfg w = Inr w) \<and>
        ((qc, qk, sc) \<noteq> (quorum_cert (ks w), quorum_key (ks w), ssl_cert (ks w)) \<longrightarrow>
           (\<exists>w1. generate_keystores x cfg w = Inr w1 \<and> material (ks w1) = (qc, qk, sc, sk) \<and>
              (qc \<noteq> [] \<and> qk \<noteq> [] \<longrightarrow>
                 fresh_write x w w1 (get_quorum_keystore cfg) (ks_zookeeper_pwd (ks w1)) qc qk) \<and>
              (sc \<noteq> [] \<and> sk \<noteq> [] \<longrightarrow>
                 (\<exists>pwd. ks_password (ks w1) = Some pwd \<and>
                    fresh_write x w w1 (get_ssl_keystore cfg) pwd sc sk))))) \<and>
     (generate_root_ca cfg = Some True \<longrightarrow>
        (material_complete (ks v) \<longrightarrow> generate_keystores x cfg v = Inr v) \<and>
        (\<not> material_complete (ks v) \<longrightarrow>
           (\<exists>v1. generate_keystores x cfg v = Inr v1 \<and> material_complete (ks v1) \<and>
              fresh_write x v v1 (get_quorum_keystore cfg) (ks_zookeeper_pwd (ks v1))
                (quorum_cert (ks v1)) (quorum_key (ks v1)) \<and>
              (\<exists>pwd. ks_password (ks v1) = Some pwd \<and>
                 fresh_write x v v1 (get_ssl_keystore cfg) pwd
                   (ssl_cert (ks v1)) (ssl_key (ks v1))))))"
proof (intro conjI allI impI)
  fix w1
  assume run: "generate_keystores x cfg w = Inr w1"
  show "generate_keystores x cfg w1 = Inr w1"
  proof (cases "w1 = w")
    case True
    with run show ?thesis
      by simp
  next
    case False
    from changed_run_rebuilds(4) [OF gen run False] show ?thesis .
  qed
  assume same: "material (ks w1) = material (ks w)"
  show "w1 = w"
  proof (rule ccontr)
    assume "w1 \<noteq> w"
    from changed_run_rebuilds(1) [OF gen run this] same show False
      by simp
  qed
next
  assume a: "generate_root_ca cfg = Some False \<and>
      get_quorum_cert x cfg (ks w) = Inr qc \<and> get_quorum_key x cfg (ks w) = Inr qk \<and>
      get_ssl_cert x cfg (ks w) = Inr sc \<and> get_ssl_key x cfg (ks w) = Inr sk"
    and "(qc, qk, sc, sk) = material (ks w)"
  then show "generate_keystores x cfg w = Inr w"
    by (intro unchanged_is_noop) (simp_all add: material_def)
next
  assume a: "generate_root_ca cfg = Some False \<and>
      get_quorum_cert x cfg (ks w) = Inr qc \<and> get_quorum_key x cfg (ks w) = Inr qk \<and>
      get_ssl_cert x cfg (ks w) = Inr sc \<and> get_ssl_key x cfg (ks w) = Inr sk"
    and diff: "(qc, qk, sc) \<noteq> (quorum_cert (ks w), quorum_key (ks w), ssl_cert (ks w))"
  then have mode: "generate_root_ca cfg = Some False"
    and getters: "get_quorum_cert x cfg (ks w) = Inr qc" "get_quorum_key x cfg (ks w) = Inr qk"
      "get_ssl_cert x cfg (ks w) = Inr sc" "get_ssl_key x cfg (ks w) = Inr sk"
    by simp_all
  from supplied_change_detected [OF mode user grp getters diff] obtain w1 where
    run: "generate_keystores x cfg w = Inr w1" and m: "material (ks w1) = (qc, qk, sc, sk)"
    and ch: "material (ks w1) \<noteq> material (ks w)"
    by blast
  from ch have ne: "w1 \<noteq> w"
    by auto
  from m have fields: "quorum_cert (ks w1) = qc" "quorum_key (ks w1) = qk"
    "ssl_cert (ks w1) = sc" "ssl_key (ks w1) = sk"
    by (simp_all add: material_def)
  from changed_run_rebuilds(2,3) [OF gen run ne] fields run m
  show "\<exists>w1. generate_keystores x cfg w = Inr w1 \<and> material (ks w1) = (qc, qk, sc, sk) \<and>
              (qc \<noteq> [] \<and> qk \<noteq> [] \<longrightarrow>
                 fresh_write x w w1 (get_quorum_keystore cfg) (ks_zookeeper_pwd (ks w1)) qc qk) \<and>
              (sc \<noteq> [] \<and> sk \<noteq> [] \<longrightarrow>
                 (\<exists>pwd. ks_password (ks w1) = Some pwd \<and>
                    fresh_write x w w1 (get_ssl_keystore cfg) pwd sc sk))"
    by (intro exI [of _ w1]) simp
next
  assume "generate_root_ca cfg = Some True" "material_complete (ks v)"
  then show "generate_keystores x cfg v = Inr v"
    by (rule complete_is_noop)
next
  assume mode: "generate_root_ca cfg = Some True" and inc: "\<not> material_complete (ks v)"
  from generated_when_incomplete [OF mode user grp gen inc] obtain v1 where
    run: "generate_keystores x cfg v = Inr v1" and c: "material_complete (ks v1)"
    and ch: "material (ks v1) \<noteq> material (ks v)"
    by blast
  from ch have ne: "v1 \<noteq> v"
    by auto
  from c have pop: "quorum_cert (ks v1) \<noteq> [] \<and> quorum_key (ks v1) \<noteq> []"
    "ssl_cert (ks v1) \<noteq> [] \<and> ssl_key (ks v1) \<noteq> []"
    by (simp_all add: material_complete_def)
  from changed_run_rebuilds(2,3) [OF gen run ne] pop run c
  show "\<exists>v1. generate_keystores x cfg v = Inr v1 \<and> material_complete (ks v1) \<and>
              fresh_write x v v1 (get_quorum_keystore cfg) (ks_zookeeper_pwd (ks v1))
                (quorum_cert (ks v1)) (quorum_key (ks v1)) \<and>
              (\<exists>pwd. ks_password (ks v1) = Some pwd \<and>
                 fresh_write x v v1 (get_ssl_keystore cfg) pwd
                   (ssl_cert (ks v1)) (ssl_key (ks v1)))"
    by (intro exI [of _ v1]) simp
qed

subsection \<open>Half-populated material is skipped in silence\<close>

lemma client_section_plaintext:
  "ssl_cert (ks w) = [] \<or> ssl_key (ks w) = [] \<Longrightarrow>
   client_section cfg w p = Inr (w, plaintext_client cfg p)"
  by (auto simp: client_section_def plaintext_client_def)


text \<open>
  Claim C3, amended. The charm has no \<^verbatim>\<open>IncompleteMaterialError\<close>. When a run of
  \<^verbatim>\<open>_generate_keystores\<close> ends with a scope in which exactly one of certificate and
  key is non-empty, the run has raised nothing, it has packaged no keystore from that
  pair and it has left the stored password of that scope as it was; for the client scope,
  the client section of the properties then takes its plaintext branch
  (\<^verbatim>\<open>ssl.clientAuth = none\<close> and \<^verbatim>\<open>clientPort\<close>).
\<close>

theorem incomplete_material_skipped:
  assumes run: "generate_keystores x cfg w = Inr w1"
  shows "(half_populated (ssl_cert (ks w1)) (ssl_key (ks w1)) \<longrightarrow>
            ks_password (ks w1) = ks_password (ks w) \<and>
            (ssl_cert (ks w1), ssl_key (ks w1)) \<notin> set (packaged w w1) \<and>
            client_section cfg w1 p = Inr (w1, plaintext_client cfg p)) \<and>
         (half_populated (quorum_cert (ks w1)) (quorum_key (ks w1)) \<longrightarrow>
            ks_zookeeper_pwd (ks w1) = ks_zookeeper_pwd (ks w) \<and>
            (quorum_cert (ks w1), quorum_key (ks w1)) \<notin> set (packaged w w1))"
proof (intro conjI impI)
  note s = run_summary [OF run]
  {
    assume half: "half_populated (ssl_cert (ks w1)) (ssl_key (ks w1))"
    then have empty: "ssl_cert (ks w1) = [] \<or> ssl_key (ks w1) = []"
      by (auto simp: half_populated_def)
    show "ks_password (ks w1) = ks_password (ks w)"
      using s(2) empty by auto
    show "(ssl_cert (ks w1), ssl_key (ks w1)) \<notin> set (packaged w w1)"
      using s(4) half by (auto simp: half_populated_def split: if_splits)
    show "client_section cfg w1 p = Inr (w1, plaintext_client cfg p)"
      using empty by (rule client_section_plaintext)
  }
  {
    assume half: "half_populated (quorum_cert (ks w1)) (quorum_key (ks w1))"
    then have empty: "quorum_cert (ks w1) = [] \<or> quorum_key (ks w1) = []"
      by (auto simp: half_populated_def)
    show "ks_zookeeper_pwd (ks w1) = ks_zookeeper_pwd (ks w)"
      using s(3) empty by auto
    show "(quorum_cert (ks w1), quorum_key (ks w1)) \<notin> set (packaged w w1)"
      using s(4) half by (auto simp: half_populated_def split: if_splits)
  }
qed


subsection \<open>The stages before the readiness test\<close>

lemma zk_rendered_append [simp]: "zk_rendered (a @ b) = zk_rendered a @ zk_rendered b"
  by (simp add: zk_rendered_def List.map_filter_def)

lemma zk_rendered_simps [simp]:
  "zk_rendered [] = []"
  "zk_rendered (Rendered src tgt u g (ZkProps p) # evs) = p # zk_rendered evs"
  "zk_rendered (Rendered src tgt u g (RootLogger l) # evs) = zk_rendered evs"
  "zk_rendered (MTLSAnnounced c t q # evs) = zk_rendered evs"
  "zk_rendered (QuorumKeypairAnnounced c t q u' g' # evs) = zk_rendered evs"
  "zk_rendered (ServiceOverrideRendered # evs) = zk_rendered evs"
  "zk_rendered (ServiceReload s # evs) = zk_rendered evs"
  "zk_rendered (ServiceRestart s # evs) = zk_rendered evs"
  by (simp_all add: zk_rendered_def List.map_filter_simps)

lemma client_section_keeps:
  assumes "client_section cfg w p = Inr (w1, p1)"
  shows "ks w1 = ks w" and "tick w1 = tick w"
    and "\<exists>evs. log w1 = log w @ evs \<and> zk_rendered evs = []"
  using assms
  by (auto simp: client_section_def Let_def and_then_eq_Inr lookup_eq_Inr attribute_def
      split: if_splits option.splits)

lemma quorum_section_keeps:
  assumes "quorum_section x cfg w p = Inr (w1, p1)"
  shows "ks w1 = ks w" and "tick w1 = tick w"
    and "\<exists>evs. log w1 = log w @ evs \<and> zk_rendered evs = []"
  using assms
  by (auto simp: quorum_section_def set_ssl_keypair_def Let_def and_then_eq_Inr lookup_eq_Inr
      split: if_splits)

lemma build_props_keeps:
  assumes "build_props x cfg w = Inr (w2, p2)"
  shows "ks w2 = ks w" and "tick w2 = tick w"
    and "\<exists>evs. log w2 = log w @ evs \<and> zk_rendered evs = []"
proof -
  from assms obtain p0 w1 p1 where
    c: "client_section cfg w p0 = Inr (w1, p1)" and q: "quorum_section x cfg w1 p1 = Inr (w2, p2)"
    by (auto simp: build_props_def and_then_eq_Inr)
  show "ks w2 = ks w" "tick w2 = tick w"
    using client_section_keeps(1,2) [OF c] quorum_section_keeps(1,2) [OF q] by simp_all
  from client_section_keeps(3) [OF c] quorum_section_keeps(3) [OF q]
  obtain e1 e2 where "log w1 = log w @ e1" "zk_rendered e1 = []"
    "log w2 = log w1 @ e2" "zk_rendered e2 = []"
    by blast
  then have "log w2 = log w @ (e1 @ e2) \<and> zk_rendered (e1 @ e2) = []"
    by simp
  then show "\<exists>evs. log w2 = log w @ evs \<and> zk_rendered evs = []"
    by blast
qed

lemma render_zk_properties_unfold:
  "render_zk_properties x cfg cl w =
     and_then (build_props x cfg w) (\<lambda>(w2, p2).
       if \<not> is_ready cl then Inr w2
       else
         Inr (w2\<lparr>log := log w2 @
                  [Rendered ''zookeeper.properties.j2'' ''/etc/kafka/zookeeper.properties''
                     (cfg_user cfg) (cfg_group cfg)
                     (ZkProps (add_servers (get_peers cl) p2))]\<rparr>))"
proof (cases "base_props x cfg")
  case (Inl e)
  then show ?thesis
    by (simp add: render_zk_properties_def build_props_def)
next
  case (Inr p0)
  show ?thesis
  proof (cases "client_section cfg w p0")
    case (Inl e)
    with Inr show ?thesis
      by (simp add: render_zk_properties_def build_props_def)
  next
    case client: (Inr r)
    with Inr show ?thesis
      by (cases r) (simp add: render_zk_properties_def build_props_def)
  qed
qed

lemma render_keeps_stored:
  assumes "render_zk_properties x cfg cl w = Inr w'"
  shows "ks w' = ks w" and "tick w' = tick w"
proof -
  from assms obtain w2 p2 where b: "build_props x cfg w = Inr (w2, p2)"
    and w': "w' = w2 \<or> (\<exists>evs. w' = w2\<lparr>log := log w2 @ evs\<rparr>)"
    by (auto simp: render_zk_properties_unfold and_then_eq_Inr split: if_splits)
  from w' build_props_keeps(1,2) [OF b] show "ks w' = ks w" and "tick w' = tick w"
    by auto
qed



subsection \<open>What the client section emits\<close>

text \<open>
  With the client pair and both passwords stored, the client section emits the secure
  port, the demand for client authentication and the two stores; without the pair it
  emits the plaintext port. The keystore location it emits by default is not the path
  at which \<^verbatim>\<open>_generate_keystores\<close> packages the client keystore by default.
\<close>

lemma client_section_tls:
  assumes "ssl_cert (ks w) \<noteq> []" and "ssl_key (ks w) \<noteq> []"
    and "ks_password (ks w) = Some kp" and "ts_password (ks w) = Some tp"
    and "cfg_ssl_cert cfg = Some c"
  shows "\<exists>w1 p1. client_section cfg w p = Inr (w1, p1) \<and>
           map_of p1 ''secureClientPort'' = Some (PInt (get_or (clientPort cfg) 2182)) \<and>
           map_of p1 ''ssl.clientAuth'' = Some (PStr ''need'') \<and>
           map_of p1 ''ssl.keyStore.location'' =
             Some (PStr (get_or (keystore_path cfg) ''/var/ssl/private/zookeeper.keystore.jks'')) \<and>
           map_of p1 ''ssl.keyStore.password'' = Some (PStr kp) \<and>
           map_of p1 ''ssl.trustStore.location'' =
             Some (PStr (get_or (truststore_path cfg) ''/var/ssl/private/zookeeper.truststore.jks'')) \<and>
           map_of p1 ''ssl.trustStore.password'' = Some (PStr tp)"
  using assms by (simp add: client_section_def Let_def dict_set_def update_conv')

lemma client_section_plain:
  assumes "ssl_cert (ks w) = [] \<or> ssl_key (ks w) = []"
  shows "\<exists>p1. client_section cfg w p = Inr (w, p1) \<and>
           map_of p1 ''clientPort'' = Some (PInt (get_or (clientPort cfg) 2182)) \<and>
           map_of p1 ''ssl.clientAuth'' = Some (PStr ''none'')"
  using assms by (auto simp: client_section_def Let_def dict_set_def update_conv')

lemma keystore_location_mismatch:
  "keystore_path cfg = None \<Longrightarrow>
   get_ssl_keystore cfg = ''/var/ssl/private/kafka_ssl_ks.jks'' \<and>
   get_or (keystore_path cfg) ''/var/ssl/private/zookeeper.keystore.jks'' \<noteq> get_ssl_keystore cfg"
  by (simp add: get_ssl_keystore_def get_or_def)

subsection \<open>The truststore password is read and never written\<close>

text \<open>
  The read of \<^verbatim>\<open>self.ks.ts_password\<close> when the base class has left the field unset.
\<close>

lemma client_section_unset_truststore:
  assumes "ts_password (ks w) = None" and "ssl_cert (ks w) \<noteq> []" and "ssl_key (ks w) \<noteq> []"
  shows "isl (client_section cfg w p)"
    and "ks_password (ks w) \<noteq> None \<Longrightarrow> client_section cfg w p = Inl (AttributeError ''ts_password'')"
  using assms
  by (auto simp: client_section_def Let_def attribute_def split: option.splits)

lemma on_config_changed_keeps_stored:
  assumes "on_config_changed x cfg cl w = Inr (w', st)"
  obtains w1 where "generate_keystores x cfg w = Inr w1" and "ks w' = ks w1"
    and "\<exists>w2. render_zk_properties x cfg cl w1 = Inr w2"
proof -
  from assms obtain w1 w2 where g: "generate_keystores x cfg w = Inr w1"
    and r: "render_zk_properties x cfg cl w1 = Inr w2"
    and k: "ks w' = ks w2"
    by (auto simp: on_config_changed_def and_then_eq_Inr Let_def render_zk_log4j_properties_def)
  from render_keeps_stored(1) [OF r] k have "ks w' = ks w1"
    by simp
  with g r that show thesis
    by blast
qed

text \<open>
  Claim C9, amended. This program declares no default for \<^verbatim>\<open>ts_password\<close> and never
  assigns it: after the \<^verbatim>\<open>set_default\<close> calls of the constructor the field is what the
  base class left, and \<^verbatim>\<open>_generate_keystores\<close> and \<^verbatim>\<open>_on_config_changed\<close> leave it as it
  was. With the client pair stored and the field unset, \<^verbatim>\<open>_render_zk_properties\<close> raises,
  at the read for \<^verbatim>\<open>ssl.trustStore.password\<close> when the keystore password is stored. With
  the field set by the base class, the client section reads it without an exception and
  emits it as \<^verbatim>\<open>ssl.trustStore.password\<close>.
\<close>

theorem ts_password_left_to_base_class:
  "ts_password (set_defaults a) = base_ts_password a \<and>
   (\<forall>w1. generate_keystores x cfg w = Inr w1 \<longrightarrow> ts_password (ks w1) = ts_password (ks w)) \<and>
   (\<forall>w1 st. on_config_changed x cfg cl w = Inr (w1, st) \<longrightarrow>
      ts_password (ks w1) = ts_password (ks w)) \<and>
   (ssl_cert (ks v) \<noteq> [] \<and> ssl_key (ks v) \<noteq> [] \<and> ts_password (ks v) = None \<longrightarrow>
      isl (render_zk_properties y cfg' cl' v) \<and>
      (ks_password (ks v) \<noteq> None \<longrightarrow>
         client_section cfg' v p = Inl (AttributeError ''ts_password''))) \<and>
   (ssl_cert (ks u) \<noteq> [] \<and> ssl_key (ks u) \<noteq> [] \<and> ts_password (ks u) = Some tp \<and>
    ks_password (ks u) = Some kp \<and> cfg_ssl_cert cfg'' = Some c \<longrightarrow>
      (\<exists>u1 p1. client_section cfg'' u q = Inr (u1, p1) \<and>
         map_of p1 ''ssl.trustStore.password'' = Some (PStr tp)))"
proof (intro conjI allI impI)
  show "ts_password (set_defaults a) = base_ts_password a"
    by (simp add: set_defaults_def)
next
  fix w1
  assume "generate_keystores x cfg w = Inr w1"
  then show "ts_password (ks w1) = ts_password (ks w)"
    by (rule run_summary(1))
next
  fix w1 st
  assume "on_config_changed x cfg cl w = Inr (w1, st)"
  then obtain wg where "generate_keystores x cfg w = Inr wg" and "ks w1 = ks wg"
    by (rule on_config_changed_keeps_stored)
  then show "ts_password (ks w1) = ts_password (ks w)"
    using run_summary(1) [of x cfg w wg] by simp
next
  assume a: "ssl_cert (ks v) \<noteq> [] \<and> ssl_key (ks v) \<noteq> [] \<and> ts_password (ks v) = None"
  show "isl (render_zk_properties y cfg' cl' v)"
    using client_section_unset_truststore(1) [of v cfg'] a
    by (cases "base_props y cfg'") (auto simp: render_zk_properties_def isl_and_then)
next
  assume a: "ssl_cert (ks v) \<noteq> [] \<and> ssl_key (ks v) \<noteq> [] \<and> ts_password (ks v) = None"
    and "ks_password (ks v) \<noteq> None"
  then show "client_section cfg' v p = Inl (AttributeError ''ts_password'')"
    using client_section_unset_truststore(2) [of v cfg' p] by simp
next
  assume a: "ssl_cert (ks u) \<noteq> [] \<and> ssl_key (ks u) \<noteq> [] \<and> ts_password (ks u) = Some tp \<and>
    ks_password (ks u) = Some kp \<and> cfg_ssl_cert cfg'' = Some c"
  then have "ssl_cert (ks u) \<noteq> []" "ssl_key (ks u) \<noteq> []" "ks_password (ks u) = Some kp"
    "ts_password (ks u) = Some tp" "cfg_ssl_cert cfg'' = Some c"
    by simp_all
  from client_section_tls [OF this, of q]
  show "\<exists>u1 p1. client_section cfg'' u q = Inr (u1, p1) \<and>
         map_of p1 ''ssl.trustStore.password'' = Some (PStr tp)"
    by blast
qed

subsection \<open>Decimal rendering and the server entries\<close>

lemma digit_char_inj: "m < 10 \<Longrightarrow> n < 10 \<Longrightarrow> digit_char m = digit_char n \<Longrightarrow> m = n"
proof -
  assume a: "m < 10" "n < 10" "digit_char m = digit_char n"
  have "distinct ''0123456789''"
    by simp
  moreover have "m < length ''0123456789''" "n < length ''0123456789''"
    using a by simp_all
  ultimately show "m = n"
    using a(3) unfolding digit_char_def by (simp only: nth_eq_iff_index_eq)
qed

lemma digit_char_not_minus: "n < 10 \<Longrightarrow> digit_char n \<noteq> CHR ''-''"
proof -
  assume "n < 10"
  then have "digit_char n \<in> set ''0123456789''"
    unfolding digit_char_def by (intro nth_mem) simp
  then show ?thesis
    by auto
qed

lemma string_of_nat_nonempty: "string_of_nat n \<noteq> []"
  by (subst string_of_nat.simps) simp

lemma string_of_nat_no_minus: "CHR ''-'' \<notin> set (string_of_nat n)"
proof (induction n rule: string_of_nat.induct)
  case (1 n)
  show ?case
  proof (cases "n < 10")
    case True
    then show ?thesis
      using digit_char_not_minus [of n] by (subst string_of_nat.simps) auto
  next
    case False
    then show ?thesis
      using "1.IH" digit_char_not_minus [of "n mod 10"]
      by (subst string_of_nat.simps) auto
  qed
qed

lemma string_of_nat_small: "n < 10 \<Longrightarrow> string_of_nat n = [digit_char n]"
  by (subst string_of_nat.simps) simp

lemma string_of_nat_large:
  "\<not> n < 10 \<Longrightarrow> string_of_nat n = string_of_nat (n div 10) @ [digit_char (n mod 10)]"
  by (subst string_of_nat.simps) simp

lemma string_of_nat_inj: "string_of_nat m = string_of_nat n \<Longrightarrow> m = n"
proof (induction m arbitrary: n rule: string_of_nat.induct)
  case (1 m)
  show ?case
  proof (cases "m < 10")
    case m: True
    show ?thesis
    proof (cases "n < 10")
      case True
      with m "1.prems" show ?thesis
        by (simp add: string_of_nat_small digit_char_inj)
    next
      case False
      with m "1.prems" show ?thesis
        using string_of_nat_nonempty [of "n div 10"]
        by (simp add: string_of_nat_small string_of_nat_large)
    qed
  next
    case m: False
    show ?thesis
    proof (cases "n < 10")
      case True
      with m "1.prems" show ?thesis
        using string_of_nat_nonempty [of "m div 10"]
        by (simp add: string_of_nat_small string_of_nat_large)
    next
      case False
      with m "1.prems" have eq: "string_of_nat (m div 10) = string_of_nat (n div 10)"
        and d: "digit_char (m mod 10) = digit_char (n mod 10)"
        by (simp_all add: string_of_nat_large)
      from "1.IH" [OF m eq] have "m div 10 = n div 10" .
      moreover from d have "m mod 10 = n mod 10"
        by (intro digit_char_inj) simp_all
      ultimately show ?thesis
        by (metis div_mult_mod_eq)
    qed
  qed
qed

lemma str_int_inj: "str_int i = str_int j \<Longrightarrow> i = j"
proof -
  assume eq: "str_int i = str_int j"
  have no: "\<And>n s. string_of_nat n \<noteq> CHR ''-'' # s"
    using string_of_nat_no_minus by (metis list.set_intros(1))
  show ?thesis
  proof (cases "i < 0"; cases "j < 0")
    assume "i < 0" "j < 0"
    with eq have "nat (- i) = nat (- j)"
      by (simp add: str_int_def string_of_nat_inj)
    with \<open>i < 0\<close> \<open>j < 0\<close> show ?thesis
      by simp
  next
    assume "i < 0" "\<not> j < 0"
    with eq no [of "nat j"] show ?thesis
      by (simp add: str_int_def) metis
  next
    assume "\<not> i < 0" "j < 0"
    with eq no [of "nat i"] show ?thesis
      by (simp add: str_int_def)
  next
    assume "\<not> i < 0" "\<not> j < 0"
    with eq have "nat i = nat j"
      by (simp add: str_int_def string_of_nat_inj)
    with \<open>\<not> i < 0\<close> \<open>\<not> j < 0\<close> show ?thesis
      by simp
  qed
qed

lemma server_key_inj: "server_key a = server_key b \<Longrightarrow> myid a = myid b"
  by (simp add: server_key_def str_int_inj)

lemma server_key_prefix: "prefix ''server.'' (server_key pr)"
  by (simp add: server_key_def)

lemma known_keys_not_server: "k \<in> known_keys \<Longrightarrow> \<not> prefix ''server.'' k"
  by (auto simp: known_keys_def)

lemma dict_set_keys: "fst ` set (dict_set k v p) = insert k (fst ` set p)"
  by (simp add: dict_set_def dom_update)

lemma dict_set_fresh: "k \<notin> fst ` set p \<Longrightarrow> dict_set k v p = p @ [(k, v)]"
  unfolding dict_set_def by (induction p) auto

lemma add_servers_fresh:
  assumes "distinct (map server_key prs)"
    and "\<forall>pr \<in> set prs. server_key pr \<notin> fst ` set p"
  shows "add_servers prs p = p @ map server_entry prs"
  using assms
proof (induction prs arbitrary: p)
  case Nil
  then show ?case
    by simp
next
  case (Cons pr prs)
  have fresh: "server_key pr \<notin> fst ` set p"
    using Cons.prems(2) by simp
  have step: "dict_set (server_key pr) (PStr (endpoint pr)) p = p @ [server_entry pr]"
    using dict_set_fresh [OF fresh] by (simp add: server_entry_def)
  have "\<forall>q \<in> set prs. server_key q \<notin> fst ` set (p @ [server_entry pr])"
    using Cons.prems by (force simp: server_entry_def image_iff)
  with Cons.IH [of "p @ [server_entry pr]"] Cons.prems(1) step show ?case
    by simp
qed

lemma server_entries_servers: "server_entries (map server_entry prs) = map server_entry prs"
  by (induction prs) (simp_all add: server_entries_def server_entry_def server_key_prefix)

lemma server_entries_known: "fst ` set p \<subseteq> known_keys \<Longrightarrow> server_entries p = []"
  unfolding server_entries_def using known_keys_not_server by (induction p) auto


subsection \<open>The server entries follow the peer list\<close>

lemma only_known_Nil [simp]: "only_known []"
  by (simp add: only_known_def)

lemma only_known_dict_set [simp]:
  "only_known (dict_set k v p) \<longleftrightarrow> k \<in> known_keys \<and> only_known p"
  by (simp add: only_known_def dict_set_keys)

lemma known_keys_mem [simp]:
  "''dataDir'' \<in> known_keys" "''dataLogDir'' \<in> known_keys"
  "''secureClientPort'' \<in> known_keys" "''serverCnxnFactory'' \<in> known_keys"
  "''authProvider.x509'' \<in> known_keys" "''sslQuorum'' \<in> known_keys"
  "''ssl.clientAuth'' \<in> known_keys" "''ssl.keyStore.location'' \<in> known_keys"
  "''ssl.keyStore.password'' \<in> known_keys" "''ssl.trustStore.location'' \<in> known_keys"
  "''ssl.trustStore.password'' \<in> known_keys" "''clientPort'' \<in> known_keys"
  "''ssl.quorum.keyStore.location'' \<in> known_keys" "''ssl.quorum.keyStore.password'' \<in> known_keys"
  "''ssl.quorum.trustStore.location'' \<in> known_keys"
  "''ssl.quorum.trustStore.password'' \<in> known_keys"
  by (simp_all add: known_keys_def)

lemma base_props_keys: "base_props x cfg = Inr p \<Longrightarrow> only_known p"
  by (auto simp: base_props_def and_then_eq_Inr split: if_splits)

lemma client_section_keys:
  assumes "client_section cfg w p = Inr (w1, p1)" and "only_known p"
  shows "only_known p1"
  using assms
  by (auto simp: client_section_def Let_def and_then_eq_Inr lookup_eq_Inr attribute_def
      split: if_splits option.splits)

lemma quorum_section_keys:
  assumes "quorum_section x cfg w p = Inr (w1, p1)" and "only_known p"
  shows "only_known p1"
  using assms
  by (auto simp: quorum_section_def Let_def and_then_eq_Inr lookup_eq_Inr split: if_splits)

lemma build_props_keys:
  assumes "build_props x cfg w = Inr (w2, p2)"
  shows "fst ` set p2 \<subseteq> known_keys"
proof -
  from assms obtain p0 w1 p1 where b: "base_props x cfg = Inr p0"
    and c: "client_section cfg w p0 = Inr (w1, p1)" and q: "quorum_section x cfg w1 p1 = Inr (w2, p2)"
    by (auto simp: build_props_def and_then_eq_Inr)
  have "only_known p2"
    by (rule quorum_section_keys [OF q client_section_keys [OF c base_props_keys [OF b]]])
  then show ?thesis
    by (simp add: only_known_def)
qed

lemma client_section_same_stored:
  assumes "client_section cfg w p = Inr (w1, p1)" and "ks v = ks w"
  shows "\<exists>v1. client_section cfg v p = Inr (v1, p1) \<and> ks v1 = ks v"
  using assms
  by (auto simp: client_section_def Let_def and_then_eq_Inr lookup_eq_Inr attribute_def
      split: if_splits option.splits)

lemma quorum_section_same_stored:
  assumes "quorum_section x cfg w p = Inr (w1, p1)" and "ks v = ks w"
  shows "\<exists>v1. quorum_section x cfg v p = Inr (v1, p1) \<and> ks v1 = ks v"
  using assms
  by (auto simp: quorum_section_def set_ssl_keypair_def Let_def and_then_eq_Inr lookup_eq_Inr
      split: if_splits)

lemma build_props_same_stored:
  assumes "build_props x cfg w = Inr (w2, p2)" and "ks v = ks w"
  shows "\<exists>v2. build_props x cfg v = Inr (v2, p2)"
proof -
  from assms(1) obtain p0 w1 p1 where b: "base_props x cfg = Inr p0"
    and c: "client_section cfg w p0 = Inr (w1, p1)" and q: "quorum_section x cfg w1 p1 = Inr (w2, p2)"
    by (auto simp: build_props_def and_then_eq_Inr)
  from client_section_same_stored [OF c assms(2)] obtain v1 where
    c': "client_section cfg v p0 = Inr (v1, p1)" and k: "ks v1 = ks v"
    by blast
  have "ks v1 = ks w1"
    using k assms(2) client_section_keeps(1) [OF c] by simp
  from quorum_section_same_stored [OF q this] obtain v2 where
    "quorum_section x cfg v1 p1 = Inr (v2, p2)"
    by blast
  with b c' show ?thesis
    by (auto simp: build_props_def)
qed

lemma render_ready:
  assumes "is_ready cl" and "build_props x cfg w = Inr (w2, p2)"
  shows "\<exists>w'. render_zk_properties x cfg cl w = Inr w' \<and>
           zk_rendered (new_events w w') = [add_servers (get_peers cl) p2]"
proof -
  from build_props_keeps(3) [OF assms(2)] obtain evs where
    "log w2 = log w @ evs" "zk_rendered evs = []"
    by blast
  with assms show ?thesis
    by (simp add: render_zk_properties_unfold new_events_def)
qed

text \<open>
  Claim C5, amended. For a ready ensemble whose peer list holds each member id once, a
  run of \<^verbatim>\<open>_render_zk_properties\<close> that ends without an exception renders one
  properties file, whose \<^verbatim>\<open>server.<memberId>\<close> entries are those of the peers, one
  each, in the order of the peer list: ascending by member id exactly when the peer list
  is. The synthesis is deterministic: a second run on the same inputs renders the same
  properties.
\<close>

theorem servers_follow_peer_list:
  assumes ready: "is_ready cl" and ids: "distinct (map myid (get_peers cl))"
    and run: "render_zk_properties x cfg cl w = Inr w'"
  shows "(\<exists>rendered. zk_rendered (new_events w w') = [rendered] \<and>
            server_entries rendered = map server_entry (get_peers cl)) \<and>
         (\<exists>w''. render_zk_properties x cfg cl w' = Inr w'' \<and>
            zk_rendered (new_events w' w'') = zk_rendered (new_events w w'))"
proof -
  from run obtain w2 p2 where b: "build_props x cfg w = Inr (w2, p2)"
    by (auto simp: render_zk_properties_unfold and_then_eq_Inr)
  from render_ready [OF ready b] run
  have first: "zk_rendered (new_events w w') = [add_servers (get_peers cl) p2]"
    by auto
  have keys: "fst ` set p2 \<subseteq> known_keys"
    by (rule build_props_keys [OF b])
  from ids have dp: "distinct (get_peers cl)" and im: "inj_on myid (set (get_peers cl))"
    by (simp_all only: distinct_map)
  have "inj_on server_key (set (get_peers cl))"
  proof (rule inj_onI)
    fix a b
    assume "a \<in> set (get_peers cl)" "b \<in> set (get_peers cl)" "server_key a = server_key b"
    then show "a = b"
      using im server_key_inj [of a b] by (simp only: inj_on_def)
  qed
  with dp have d: "distinct (map server_key (get_peers cl))"
    by (simp only: distinct_map simp_thms)
  have fresh: "\<forall>pr \<in> set (get_peers cl). server_key pr \<notin> fst ` set p2"
    using keys known_keys_not_server server_key_prefix by blast
  have shape: "add_servers (get_peers cl) p2 = p2 @ map server_entry (get_peers cl)"
    by (rule add_servers_fresh [OF d fresh])
  have entries: "server_entries (add_servers (get_peers cl) p2) = map server_entry (get_peers cl)"
    using server_entries_known [OF keys] server_entries_servers [of "get_peers cl"]
    by (simp add: shape server_entries_def)
  have "ks w' = ks w"
    by (rule render_keeps_stored(1) [OF run])
  from build_props_same_stored [OF b this] obtain v2 where
    "build_props x cfg w' = Inr (v2, p2)"
    by blast
  from render_ready [OF ready this] first
  have "\<exists>w''. render_zk_properties x cfg cl w' = Inr w'' \<and>
            zk_rendered (new_events w' w'') = zk_rendered (new_events w w')"
    by auto
  with first entries show ?thesis
    by simp
qed

subsection \<open>The client settings in the rendered properties\<close>

lemma zk_rendered_others [simp]:
  "zk_rendered (Makedirs d # evs) = zk_rendered evs"
  "zk_rendered (SelfSigned n u g # evs) = zk_rendered evs"
  "zk_rendered (KeystoreWritten pa pw c k u g f # evs) = zk_rendered evs"
  by (simp_all add: zk_rendered_def List.map_filter_simps)






















subsection \<open>Assigning the node's member id\<close>

lemma first_free_ge: "c \<le> first_free used c"
proof (induction used c rule: first_free.induct)
  case (1 used c)
  then show ?case
    by (subst first_free.simps) (auto simp: Suc_leD)
qed

lemma first_free_free: "first_free used c \<notin> set used"
proof (induction used c rule: first_free.induct)
  case (1 used c)
  then show ?case
    by (subst first_free.simps) auto
qed

lemma first_free_least: "c \<le> j \<Longrightarrow> j < first_free used c \<Longrightarrow> j \<in> set used"
proof (induction used c rule: first_free.induct)
  case (1 used c)
  show ?case
  proof (cases "c \<in> set used")
    case True
    with "1.prems"(2) have lt: "j < first_free used (Suc c)"
      by (subst (asm) first_free.simps) simp
    show ?thesis
    proof (cases "j = c")
      case True
      with \<open>c \<in> set used\<close> show ?thesis
        by simp
    next
      case False
      with "1.prems"(1) have "Suc c \<le> j"
        by simp
      from "1.IH" [OF True this lt] show ?thesis .
    qed
  next
    case False
    with "1.prems" show ?thesis
      by (subst (asm) first_free.simps) simp
  qed
qed

lemma recordPeer_self_id: "recordPeer replace i e r = Inr r' \<Longrightarrow> self_id r' = self_id r"
  by (auto simp: recordPeer_def split: option.splits if_splits)

lemma recordPeers_self_id: "recordPeers ps r = Inr r' \<Longrightarrow> self_id r' = self_id r"
proof (induction ps arbitrary: r)
  case Nil
  then show ?case
    by simp
next
  case (Cons p ps)
  obtain replace i e where p: "p = (replace, i, e)"
    by (cases p)
  from Cons.prems p obtain r1 where a: "recordPeer replace i e r = Inr r1"
    and b: "recordPeers ps r1 = Inr r'"
    by (auto simp: and_then_eq_Inr)
  from Cons.IH [OF b] recordPeer_self_id [OF a] show ?case
    by simp
qed

lemma assignSelfId_assigned: "self_id r = Some i \<Longrightarrow> assignSelfId r = (i, r)"
  by (simp add: assignSelfId_def)


text \<open>
  Claim C8. If the node has a member id, \<^verbatim>\<open>assignSelfId\<close> returns it and changes
  nothing, also after any sequence of \<^verbatim>\<open>recordPeer\<close> calls. Otherwise it returns the
  smallest positive integer that is not the id of a recorded member, records it as the
  node's id with a member of origin Self, and returns the same id when called again.
\<close>

theorem assign_self_id_idempotent_minimal:
  "(self_id r = Some i \<longrightarrow>
      assignSelfId r = (i, r) \<and>
      (\<forall>ps r'. recordPeers ps r = Inr r' \<longrightarrow> assignSelfId r' = (i, r'))) \<and>
   (self_id q = None \<longrightarrow>
      (\<exists>n q'. assignSelfId q = (n, q') \<and> 0 < n \<and> n \<notin> fst ` set (members q) \<and>
         (\<forall>j. 0 < j \<and> j < n \<longrightarrow> j \<in> fst ` set (members q)) \<and>
         self_id q' = Some n \<and>
         map_of (members q') n =
           Some \<lparr>member_endpoint = self_endpoint q, member_origin = Self\<rparr> \<and>
         assignSelfId q' = (n, q')))"
proof (intro conjI impI allI)
  assume "self_id r = Some i"
  then show "assignSelfId r = (i, r)"
    by (rule assignSelfId_assigned)
next
  fix ps r'
  assume "self_id r = Some i" "recordPeers ps r = Inr r'"
  then have "self_id r' = Some i"
    using recordPeers_self_id by simp
  then show "assignSelfId r' = (i, r')"
    by (rule assignSelfId_assigned)
next
  assume none: "self_id q = None"
  define n where "n = first_free (map fst (members q)) 1"
  define q' where "q' = q\<lparr>self_id := Some n,
      members := AList.update n
        \<lparr>member_endpoint = self_endpoint q, member_origin = Self\<rparr> (members q)\<rparr>"
  have run: "assignSelfId q = (n, q')"
    using none by (simp add: assignSelfId_def n_def q'_def Let_def)
  have pos: "0 < n"
    using first_free_ge [of 1 "map fst (members q)"] by (simp add: n_def)
  have free: "n \<notin> fst ` set (members q)"
    using first_free_free [of "map fst (members q)" 1] by (simp add: n_def)
  have least: "\<forall>j. 0 < j \<and> j < n \<longrightarrow> j \<in> fst ` set (members q)"
    using first_free_least [of 1 _ "map fst (members q)"] by (auto simp: n_def)
  have sid: "self_id q' = Some n"
    by (simp add: q'_def)
  have entry: "map_of (members q') n =
      Some \<lparr>member_endpoint = self_endpoint q, member_origin = Self\<rparr>"
    by (simp add: q'_def update_conv')
  have again: "assignSelfId q' = (n, q')"
    using sid by (rule assignSelfId_assigned)
  from run pos free least sid entry again
  show "\<exists>n q'. assignSelfId q = (n, q') \<and> 0 < n \<and> n \<notin> fst ` set (members q) \<and>
         (\<forall>j. 0 < j \<and> j < n \<longrightarrow> j \<in> fst ` set (members q)) \<and>
         self_id q' = Some n \<and>
         map_of (members q') n =
           Some \<lparr>member_endpoint = self_endpoint q, member_origin = Self\<rparr> \<and>
         assignSelfId q' = (n, q')"
    by blast
qed


subsection \<open>Default paths of the stores\<close>

text \<open>
  Claim C10. When the configuration gives no path, the client truststore and the client
  keystore are the same file, \<^verbatim>\<open>/var/ssl/private/kafka_ssl_ks.jks\<close>, and the quorum
  truststore is \<^verbatim>\<open>/var/ssl/private,kafka_quorum_ts.jks\<close>, with a comma: a path that
  does not lie in the directory \<^verbatim>\<open>/var/ssl/private\<close> the constructor makes.
\<close>

theorem default_store_paths:
  assumes "keystore_path cfg = None" and "truststore_path cfg = None"
    and "quorum_truststore_path cfg = None"
  shows "get_ssl_truststore cfg = get_ssl_keystore cfg \<and>
         get_ssl_keystore cfg = ''/var/ssl/private/kafka_ssl_ks.jks'' \<and>
         get_quorum_truststore cfg = ''/var/ssl/private,kafka_quorum_ts.jks'' \<and>
         \<not> prefix ''/var/ssl/private/'' (get_quorum_truststore cfg)"
  using assms
  by (simp add: get_ssl_truststore_def get_ssl_keystore_def get_quorum_truststore_def get_or_def)


section \<open>Concrete runs\<close>

lemmas run_defs =
  generate_keystores_def generate_material_def certs_unchanged_def store_material_def
  create_quorum_keystore_def create_ssl_keystore_def material_complete_def
  get_quorum_cert_def get_quorum_key_def get_ssl_cert_def get_ssl_key_def
  get_quorum_keystore_def get_ssl_keystore_def get_quorum_truststore_def get_ssl_truststore_def
  get_or_def Let_def charm_init_def

lemmas render_defs =
  render_zk_properties_def base_props_def first_item_value_def client_section_def
  quorum_section_def set_ssl_keypair_def dict_set_def server_key_def str_int_def
  string_of_nat.simps on_config_changed_def render_zk_log4j_properties_def
  check_if_ready_def service_def

lemmas sample_defs =
  sample_ext_def plain_cfg_def fresh_world_def fresh_ks_def set_defaults_def set_default_def
  nothing_stored_def digit_char_def three_members_def

subsection \<open>Runs that satisfy the hypotheses\<close>

text \<open>
  For C2: the operator replaces the quorum certificate; the operator changes nothing;
  the constructor on a unit that generates its root CA, and a second run.
\<close>

theorem keystores_rebuilt_with_material_witness:
  "generator_nonempty sample_ext \<and>
   cfg_user plain_cfg = Some ''cp-kafka'' \<and> cfg_group plain_cfg = Some ''confluent'' \<and>
   generate_keystores sample_ext (supplied_cfg ''UUNFUlQy'' ''UUtFWQ=='' ''Q0VSVA=='' ''T0xES0VZ'')
     old_key_world = Inr rotated_quorum_world \<and>
   generate_keystores sample_ext (supplied_cfg ''UUNFUlQy'' ''UUtFWQ=='' ''Q0VSVA=='' ''T0xES0VZ'')
     rotated_quorum_world = Inr rotated_quorum_world \<and>
   material (ks old_key_world) = (''QCERT'', ''QKEY'', ''CERT'', ''OLDKEY'') \<and>
   material (ks rotated_quorum_world) = (''QCERT2'', ''QKEY'', ''CERT'', ''OLDKEY'') \<and>
   fresh_write sample_ext old_key_world rotated_quorum_world
     ''/var/ssl/private/kafka_quorum_ks.jks'' ''password4'' ''QCERT2'' ''QKEY'' \<and>
   fresh_write sample_ext old_key_world rotated_quorum_world
     ''/var/ssl/private/kafka_ssl_ks.jks'' ''password6'' ''CERT'' ''OLDKEY'' \<and>
   generate_keystores sample_ext (supplied_cfg ''UUNFUlQ='' ''UUtFWQ=='' ''Q0VSVA=='' ''T0xES0VZ'')
     old_key_world = Inr old_key_world \<and>
   \<not> material_complete (ks started_world) \<and>
   generate_keystores sample_ext generated_cfg started_world = Inr generated_world \<and>
   material_complete (ks generated_world) \<and>
   fresh_write sample_ext started_world generated_world
     ''/var/ssl/private/kafka_quorum_ks.jks'' ''password2''
     ''cert quorum-zookeeper-root-ca'' ''key quorum-zookeeper-root-ca'' \<and>
   fresh_write sample_ext started_world generated_world
     ''/var/ssl/private/kafka_ssl_ks.jks'' ''password4''
     ''cert ssl-zookeeper-root-ca'' ''key ssl-zookeeper-root-ca'' \<and>
   generate_keystores sample_ext generated_cfg generated_world = Inr generated_world"
proof -
  let ?rot = "supplied_cfg ''UUNFUlQy'' ''UUtFWQ=='' ''Q0VSVA=='' ''T0xES0VZ''"
  let ?old = "supplied_cfg ''UUNFUlQ='' ''UUtFWQ=='' ''Q0VSVA=='' ''T0xES0VZ''"
  have gen: "generator_nonempty sample_ext"
    by (simp add: generator_nonempty_def sample_ext_def)
  have ug: "cfg_user plain_cfg = Some ''cp-kafka''" "cfg_group plain_cfg = Some ''confluent''"
    "cfg_user ?rot = Some ''cp-kafka''" "cfg_group ?rot = Some ''confluent''"
    "cfg_user ?old = Some ''cp-kafka''" "cfg_group ?old = Some ''confluent''"
    "cfg_user generated_cfg = Some ''cp-kafka''" "cfg_group generated_cfg = Some ''confluent''"
    by (simp_all add: plain_cfg_def supplied_cfg_def generated_cfg_def)
  note rot = keystores_rebuilt_with_material [OF gen ug(3) ug(4), where w = old_key_world
      and qc = "''QCERT2''" and qk = "''QKEY''" and sc = "''CERT''" and sk = "''OLDKEY''"]
  note old = keystores_rebuilt_with_material [OF gen ug(5) ug(6), where w = old_key_world
      and qc = "''QCERT''" and qk = "''QKEY''" and sc = "''CERT''" and sk = "''OLDKEY''"]
  note made = keystores_rebuilt_with_material [OF gen ug(7) ug(8), where v = started_world]
  note again = keystores_rebuilt_with_material [OF gen ug(7) ug(8), where v = generated_world]
  have mode: "generate_root_ca ?rot = Some False" "generate_root_ca ?old = Some False"
    "generate_root_ca generated_cfg = Some True"
    by (simp_all add: plain_cfg_def supplied_cfg_def generated_cfg_def)
  have getters_rot: "get_quorum_cert sample_ext ?rot (ks old_key_world) = Inr ''QCERT2''"
    "get_quorum_key sample_ext ?rot (ks old_key_world) = Inr ''QKEY''"
    "get_ssl_cert sample_ext ?rot (ks old_key_world) = Inr ''CERT''"
    "get_ssl_key sample_ext ?rot (ks old_key_world) = Inr ''OLDKEY''"
    by (simp_all add: run_defs sample_defs supplied_cfg_def)
  have getters_old: "get_quorum_cert sample_ext ?old (ks old_key_world) = Inr ''QCERT''"
    "get_quorum_key sample_ext ?old (ks old_key_world) = Inr ''QKEY''"
    "get_ssl_cert sample_ext ?old (ks old_key_world) = Inr ''CERT''"
    "get_ssl_key sample_ext ?old (ks old_key_world) = Inr ''OLDKEY''"
    by (simp_all add: run_defs sample_defs supplied_cfg_def)
  have m_old: "material (ks old_key_world) = (''QCERT'', ''QKEY'', ''CERT'', ''OLDKEY'')"
    by (simp add: material_def old_key_world_def)
  have stored_old: "quorum_cert (ks old_key_world) = ''QCERT''"
    "quorum_key (ks old_key_world) = ''QKEY''" "ssl_cert (ks old_key_world) = ''CERT''"
    by (simp_all add: old_key_world_def)
  have run_rot: "generate_keystores sample_ext ?rot old_key_world = Inr rotated_quorum_world"
    by (simp add: run_defs sample_defs supplied_cfg_def old_key_world_def rotated_quorum_world_def)
  have vals_rot: "ks_zookeeper_pwd (ks rotated_quorum_world) = ''password4''"
    "ks_password (ks rotated_quorum_world) = Some ''password6''"
    "get_quorum_keystore ?rot = ''/var/ssl/private/kafka_quorum_ks.jks''"
    "get_ssl_keystore ?rot = ''/var/ssl/private/kafka_ssl_ks.jks''"
    by (simp_all add: run_defs sample_defs supplied_cfg_def rotated_quorum_world_def)
  from rot mode(1) getters_rot stored_old run_rot
  have r1: "material (ks rotated_quorum_world) = (''QCERT2'', ''QKEY'', ''CERT'', ''OLDKEY'')"
    and r2: "fresh_write sample_ext old_key_world rotated_quorum_world (get_quorum_keystore ?rot)
        (ks_zookeeper_pwd (ks rotated_quorum_world)) ''QCERT2'' ''QKEY''"
    and r3: "\<exists>pwd. ks_password (ks rotated_quorum_world) = Some pwd \<and>
        fresh_write sample_ext old_key_world rotated_quorum_world (get_ssl_keystore ?rot) pwd
          ''CERT'' ''OLDKEY''"
    and r4: "generate_keystores sample_ext ?rot rotated_quorum_world = Inr rotated_quorum_world"
    by auto
  from old mode(2) getters_old m_old
  have o1: "generate_keystores sample_ext ?old old_key_world = Inr old_key_world"
    by simp
  have inc: "\<not> material_complete (ks started_world)"
    by (simp add: started_world_def sample_defs material_complete_def)
  have run_made: "generate_keystores sample_ext generated_cfg started_world = Inr generated_world"
    by (simp add: run_defs sample_defs generated_cfg_def generated_world_def started_world_def)
  have vals_made: "ks_zookeeper_pwd (ks generated_world) = ''password2''"
    "ks_password (ks generated_world) = Some ''password4''"
    "quorum_cert (ks generated_world) = ''cert quorum-zookeeper-root-ca''"
    "quorum_key (ks generated_world) = ''key quorum-zookeeper-root-ca''"
    "ssl_cert (ks generated_world) = ''cert ssl-zookeeper-root-ca''"
    "ssl_key (ks generated_world) = ''key ssl-zookeeper-root-ca''"
    "get_quorum_keystore generated_cfg = ''/var/ssl/private/kafka_quorum_ks.jks''"
    "get_ssl_keystore generated_cfg = ''/var/ssl/private/kafka_ssl_ks.jks''"
    by (simp_all add: run_defs sample_defs generated_cfg_def generated_world_def)
  from made mode(3) inc run_made
  have g1: "material_complete (ks generated_world)"
    and g2: "fresh_write sample_ext started_world generated_world (get_quorum_keystore generated_cfg)
        (ks_zookeeper_pwd (ks generated_world)) (quorum_cert (ks generated_world))
        (quorum_key (ks generated_world))"
    and g3: "\<exists>pwd. ks_password (ks generated_world) = Some pwd \<and>
        fresh_write sample_ext started_world generated_world (get_ssl_keystore generated_cfg) pwd
          (ssl_cert (ks generated_world)) (ssl_key (ks generated_world))"
    by auto
  from again mode(3) g1
  have g4: "generate_keystores sample_ext generated_cfg generated_world = Inr generated_world"
    by simp
  from r2 r3 vals_rot have r5: "fresh_write sample_ext old_key_world rotated_quorum_world
     ''/var/ssl/private/kafka_quorum_ks.jks'' ''password4'' ''QCERT2'' ''QKEY''"
    "fresh_write sample_ext old_key_world rotated_quorum_world
     ''/var/ssl/private/kafka_ssl_ks.jks'' ''password6'' ''CERT'' ''OLDKEY''"
    by auto
  from g2 g3 vals_made have g5: "fresh_write sample_ext started_world generated_world
     ''/var/ssl/private/kafka_quorum_ks.jks'' ''password2''
     ''cert quorum-zookeeper-root-ca'' ''key quorum-zookeeper-root-ca''"
    "fresh_write sample_ext started_world generated_world
     ''/var/ssl/private/kafka_ssl_ks.jks'' ''password4''
     ''cert ssl-zookeeper-root-ca'' ''key ssl-zookeeper-root-ca''"
    by auto
  from gen ug(1,2) run_rot r4 m_old r1 r5 o1 inc run_made g1 g5 g4 show ?thesis
    by blast
qed


text \<open>For C3: both scopes half populated.\<close>

theorem incomplete_material_skipped_witness:
  "generate_keystores sample_ext half_cfg fresh_world = Inr half_world \<and>
   half_populated (ssl_cert (ks half_world)) (ssl_key (ks half_world)) \<and>
   half_populated (quorum_cert (ks half_world)) (quorum_key (ks half_world)) \<and>
   ks_password (ks half_world) = ks_password (ks fresh_world) \<and>
   ks_zookeeper_pwd (ks half_world) = ks_zookeeper_pwd (ks fresh_world) \<and>
   client_section half_cfg half_world [] =
     Inr (half_world, [(''ssl.clientAuth'', PStr ''none''), (''clientPort'', PInt 2182)])"
proof -
  have run: "generate_keystores sample_ext half_cfg fresh_world = Inr half_world"
    by (simp add: run_defs sample_defs supplied_cfg_def half_cfg_def half_world_def)
  have half: "half_populated (ssl_cert (ks half_world)) (ssl_key (ks half_world))"
    "half_populated (quorum_cert (ks half_world)) (quorum_key (ks half_world))"
    by (simp_all add: half_populated_def half_world_def)
  have plain: "plaintext_client half_cfg [] =
      [(''ssl.clientAuth'', PStr ''none''), (''clientPort'', PInt 2182)]"
    by (simp add: plaintext_client_def dict_set_def get_or_def sample_defs supplied_cfg_def
        half_cfg_def half_world_def)
  from incomplete_material_skipped [OF run, of "[]"] half plain run show ?thesis
    by simp
qed


text \<open>For C5: the ensemble of the unit test, without TLS.\<close>

theorem servers_follow_peer_list_witness:
  "is_ready three_members \<and> distinct (map myid (get_peers three_members)) \<and>
   render_zk_properties sample_ext plain_cfg three_members fresh_world =
     Inr (fresh_world\<lparr>log :=
            [Rendered ''zookeeper.properties.j2'' ''/etc/kafka/zookeeper.properties''
               (Some ''cp-kafka'') (Some ''confluent'')
               (ZkProps (plain_props @ three_servers))]\<rparr>) \<and>
   server_entries (plain_props @ three_servers) = map server_entry (get_peers three_members)"
proof -
  have h: "is_ready three_members" "distinct (map myid (get_peers three_members))"
    by (simp_all add: three_members_def)
  have run: "render_zk_properties sample_ext plain_cfg three_members fresh_world =
     Inr (fresh_world\<lparr>log :=
            [Rendered ''zookeeper.properties.j2'' ''/etc/kafka/zookeeper.properties''
               (Some ''cp-kafka'') (Some ''confluent'')
               (ZkProps (plain_props @ three_servers))]\<rparr>)"
    by (simp add: run_defs sample_defs plain_props_def three_servers_def render_defs)
  have "zk_rendered (new_events fresh_world (fresh_world\<lparr>log :=
            [Rendered ''zookeeper.properties.j2'' ''/etc/kafka/zookeeper.properties''
               (Some ''cp-kafka'') (Some ''confluent'')
               (ZkProps (plain_props @ three_servers))]\<rparr>)) = [plain_props @ three_servers]"
    by (simp add: new_events_def fresh_world_def)
  with servers_follow_peer_list [OF h run]
  have "server_entries (plain_props @ three_servers) = map server_entry (get_peers three_members)"
    by simp
  with h run show ?thesis
    by simp
qed

text \<open>For C8: the node takes the id 3, and keeps it after two announcements.\<close>

theorem assign_self_id_witness:
  "self_id registry_after = Some 3 \<and> self_id registry_before = None \<and>
   assignSelfId registry_before = (3, registry_after) \<and>
   assignSelfId registry_after = (3, registry_after) \<and>
   recordPeers [(False, 5, ''host5:2888:3888''), (True, 1, ''host9:2888:3888'')] registry_after =
     Inr registry_peers \<and>
   assignSelfId registry_peers = (3, registry_peers)"
proof -
  have a: "self_id registry_after = Some 3" "self_id registry_before = None"
    by (simp_all add: registry_after_def registry_before_def)
  have run: "assignSelfId registry_before = (3, registry_after)"
    by (simp add: assignSelfId_def registry_before_def registry_after_def Let_def
        first_free.simps remote_def)
  have peers: "recordPeers [(False, 5, ''host5:2888:3888''), (True, 1, ''host9:2888:3888'')]
      registry_after = Inr registry_peers"
    by (simp add: recordPeer_def registry_after_def registry_peers_def remote_def)
  note t = assign_self_id_idempotent_minimal [of registry_after 3 registry_before]
  from t a(1) have c1: "assignSelfId registry_after = (3, registry_after)"
    and c2: "\<forall>ps r'. recordPeers ps registry_after = Inr r' \<longrightarrow> assignSelfId r' = (3, r')"
    by blast+
  from c2 peers have c3: "assignSelfId registry_peers = (3, registry_peers)"
    by blast
  from a run c1 peers c3 show ?thesis
    by blast
qed


text \<open>For C10: the configuration without paths.\<close>

theorem default_store_paths_witness:
  "keystore_path plain_cfg = None \<and> truststore_path plain_cfg = None \<and>
   quorum_truststore_path plain_cfg = None \<and>
   get_ssl_truststore plain_cfg = get_ssl_keystore plain_cfg \<and>
   get_quorum_truststore plain_cfg = ''/var/ssl/private,kafka_quorum_ts.jks'' \<and>
   \<not> prefix ''/var/ssl/private/'' (get_quorum_truststore plain_cfg)"
proof -
  have h: "keystore_path plain_cfg = None" "truststore_path plain_cfg = None"
    "quorum_truststore_path plain_cfg = None"
    by (simp_all add: plain_cfg_def)
  from default_store_paths [OF h] h show ?thesis
    by simp
qed






text \<open>
  For C9: the constructor's defaults, a second run of keystore generation, and the client
  section with the truststore password unset and set.
\<close>

theorem ts_password_left_to_base_class_witness:
  "ts_password (set_defaults passwords_stored) = Some ''base-truststore-password'' \<and>
   generate_keystores sample_ext generated_cfg generated_world = Inr generated_world \<and>
   ts_password (ks generated_world) = None \<and>
   ssl_cert (ks generated_world) \<noteq> [] \<and> ssl_key (ks generated_world) \<noteq> [] \<and>
   ks_password (ks generated_world) \<noteq> None \<and>
   client_section generated_cfg generated_world [] = Inl (AttributeError ''ts_password'') \<and>
   isl (render_zk_properties sample_ext generated_cfg three_members generated_world) \<and>
   ts_password (ks tls_world) = Some ''base-truststore-password'' \<and>
   ks_password (ks tls_world) = Some ''password4'' \<and>
   cfg_ssl_cert generated_cfg = Some [] \<and>
   \<not> isl (client_section generated_cfg tls_world [])"
proof -
  note t = ts_password_left_to_base_class [of passwords_stored sample_ext generated_cfg
      generated_world three_members generated_world sample_ext generated_cfg three_members "[]"
      tls_world "''base-truststore-password''" "''password4''" generated_cfg "[]" "[]"]
  have b: "base_ts_password passwords_stored = Some ''base-truststore-password''"
    by (simp add: passwords_stored_def)
  have g: "generate_keystores sample_ext generated_cfg generated_world = Inr generated_world"
    by (simp add: run_defs sample_defs generated_cfg_def generated_world_def)
  have v: "ssl_cert (ks generated_world) \<noteq> []" "ssl_key (ks generated_world) \<noteq> []"
    "ts_password (ks generated_world) = None" "ks_password (ks generated_world) \<noteq> None"
    by (simp_all add: generated_world_def)
  have u: "ssl_cert (ks tls_world) \<noteq> []" "ssl_key (ks tls_world) \<noteq> []"
    "ts_password (ks tls_world) = Some ''base-truststore-password''"
    "ks_password (ks tls_world) = Some ''password4''" "cfg_ssl_cert generated_cfg = Some []"
    by (simp_all add: tls_world_def generated_world_def generated_cfg_def plain_cfg_def)
  from t b have c1: "ts_password (set_defaults passwords_stored) = Some ''base-truststore-password''"
    by simp
  from t v have c2: "isl (render_zk_properties sample_ext generated_cfg three_members generated_world)"
    and c3: "client_section generated_cfg generated_world [] = Inl (AttributeError ''ts_password'')"
    by blast+
  from t u have "\<exists>u1 p1. client_section generated_cfg tls_world [] = Inr (u1, p1) \<and>
         map_of p1 ''ssl.trustStore.password'' = Some (PStr ''base-truststore-password'')"
    by blast
  then have c4: "\<not> isl (client_section generated_cfg tls_world [])"
    by auto
  from c1 g v c3 c2 u c4 show ?thesis
    by blast
qed


subsection \<open>Runs against the claims as stated\<close>

text \<open>
  Against C2 as stated ("a keystore is rebuilt if and only if the material that produced
  it has changed"): the operator replaces the quorum certificate only. The client
  keystore is packaged again from the same certificate and key, and its stored password
  changes.
\<close>

theorem client_keystore_rebuilt_without_change:
  "generate_keystores sample_ext (supplied_cfg ''UUNFUlQy'' ''UUtFWQ=='' ''Q0VSVA=='' ''T0xES0VZ'')
     old_key_world = Inr rotated_quorum_world \<and>
   ssl_cert (ks rotated_quorum_world) = ssl_cert (ks old_key_world) \<and>
   ssl_key (ks rotated_quorum_world) = ssl_key (ks old_key_world) \<and>
   ks_password (ks old_key_world) = Some ''password2'' \<and>
   ks_password (ks rotated_quorum_world) = Some ''password6'' \<and>
   keystore_writes (new_events old_key_world rotated_quorum_world) =
     [(''/var/ssl/private/kafka_quorum_ks.jks'', ''password4'', ''QCERT2'', ''QKEY''),
      (''/var/ssl/private/kafka_ssl_ks.jks'', ''password6'', ''CERT'', ''OLDKEY'')]"
  by (simp add: run_defs sample_defs supplied_cfg_def old_key_world_def rotated_quorum_world_def
      new_events_def)


text \<open>
  Against C3 as stated ("fails fast with IncompleteMaterialError and blocks configuration
  emission"): the client certificate comes without its key and the quorum key without
  its certificate. Keystore generation stores both halves and returns; the handler
  renders the plaintext properties and restarts the service.
\<close>

theorem half_material_accepted:
  "generate_keystores sample_ext half_cfg fresh_world = Inr half_world \<and>
   half_populated (ssl_cert (ks half_world)) (ssl_key (ks half_world)) \<and>
   half_populated (quorum_cert (ks half_world)) (quorum_key (ks half_world)) \<and>
   on_config_changed sample_ext half_cfg three_members fresh_world =
     Inr (half_world\<lparr>log :=
            Rendered ''zookeeper.properties.j2'' ''/etc/kafka/zookeeper.properties''
              (Some ''cp-kafka'') (Some ''confluent'') (ZkProps (plain_props @ three_servers))
            # service_events\<rparr>,
          ActiveStatus ''confluent-zookeeper running'')"
  by (simp add: run_defs sample_defs supplied_cfg_def half_cfg_def half_world_def plain_props_def
      three_servers_def service_events_def render_defs half_populated_def)


text \<open>
  Against C5 as stated ("in memberId-ascending order regardless of the order in which
  peers are returned by the peer list"): the peer list holds member 2 before member 1,
  and so does the rendered file.
\<close>

theorem servers_in_peer_list_order:
  "render_zk_properties sample_ext plain_cfg swapped_peers fresh_world =
     Inr (fresh_world\<lparr>log :=
            [Rendered ''zookeeper.properties.j2'' ''/etc/kafka/zookeeper.properties''
               (Some ''cp-kafka'') (Some ''confluent'')
               (ZkProps (plain_props @
                  [(''server.2'', PStr ''host2:2888:3888''),
                   (''server.1'', PStr ''host1:2888:3888'')]))]\<rparr>)"
  by (simp add: run_defs sample_defs plain_props_def render_defs swapped_peers_def)



text \<open>
  Against C9 as stated ("for every run in which client TLS material is present the read
  of ts_password hits an uninitialized field"): the base class has stored the passwords
  of the client stores, the constructor generates the root CA. The properties are
  rendered, with the stored truststore password.
\<close>

theorem truststore_password_rendered:
  "base_ts_password passwords_stored = Some ''base-truststore-password'' \<and>
   charm_init sample_ext generated_cfg (unit_start passwords_stored) = Inr tls_world \<and>
   ssl_cert (ks tls_world) = ''cert ssl-zookeeper-root-ca'' \<and>
   ssl_key (ks tls_world) = ''key ssl-zookeeper-root-ca'' \<and>
   render_zk_properties sample_ext generated_cfg three_members tls_world =
     Inr (tls_world\<lparr>log := log tls_world @ tls_rendered\<rparr>) \<and>
   map_of tls_props ''ssl.trustStore.password'' = Some (PStr ''base-truststore-password'')"
  by (simp add: run_defs sample_defs generated_cfg_def generated_world_def render_defs
      passwords_stored_def unit_start_def tls_world_def tls_rendered_def tls_props_def
      three_servers_def)


subsection \<open>Runs on which the code departs from the claim\<close>

text \<open>
  Claim C1 says that a difference in any one of the four supplied values is detected.
  The test compares the quorum key twice and the client key never. Here the unit has
  stored the material \<open>QCERT\<close>, \<open>QKEY\<close>, \<open>CERT\<close>, \<open>OLDKEY\<close> in a first run; the operator
  then supplies the client key \<open>NEWKEY\<close>. The getter returns the new key, the stored key
  is the old one, and the run returns the world as it was: nothing is stored, no keystore
  is packaged.
\<close>

theorem rotated_client_key_ignored:
  "generate_keystores sample_ext (supplied_cfg ''UUNFUlQ='' ''UUtFWQ=='' ''Q0VSVA=='' ''T0xES0VZ'')
     fresh_world = Inr old_key_world \<and>
   get_ssl_key sample_ext (supplied_cfg ''UUNFUlQ='' ''UUtFWQ=='' ''Q0VSVA=='' ''TkVXS0VZ'')
     (ks old_key_world) = Inr ''NEWKEY'' \<and>
   ssl_key (ks old_key_world) = ''OLDKEY'' \<and>
   generate_keystores sample_ext (supplied_cfg ''UUNFUlQ='' ''UUtFWQ=='' ''Q0VSVA=='' ''TkVXS0VZ'')
     old_key_world = Inr old_key_world"
  by (simp add: run_defs sample_defs supplied_cfg_def old_key_world_def)


text \<open>
  Claim C6 says that no configuration declares TLS while its keystore is absent. The
  quorum section is guarded by the option \<^verbatim>\<open>ssl_quorum\<close> alone, where the client
  section is guarded by the stored material. Here \<^verbatim>\<open>ssl_quorum\<close> is set and no quorum
  material is supplied: neither the constructor nor the handler packages a keystore,
  and the handler renders \<^verbatim>\<open>sslQuorum = true\<close> with a keystore location at which
  nothing was written and an empty keystore password.
\<close>

theorem quorum_tls_without_keystore:
  "charm_init sample_ext quorum_flag_cfg fresh_world = Inr started_world \<and>
   on_config_changed sample_ext quorum_flag_cfg three_members started_world =
     Inr (quorum_flag_world, ActiveStatus ''confluent-zookeeper running'') \<and>
   zk_rendered (log quorum_flag_world) = [quorum_flag_props] \<and>
   map_of quorum_flag_props ''sslQuorum'' = Some (PStr ''true'') \<and>
   map_of quorum_flag_props ''ssl.quorum.keyStore.location'' =
     Some (PStr ''/var/ssl/private/kafka_quorum_ks.jks'') \<and>
   map_of quorum_flag_props ''ssl.quorum.keyStore.password'' = Some (PStr []) \<and>
   keystore_writes (log quorum_flag_world) = []"
  by (simp add: run_defs sample_defs plain_props_def three_servers_def service_events_def
      quorum_flag_props_def render_defs quorum_flag_cfg_def
      started_world_def quorum_flag_world_def keystore_writes_def keystore_write_def
      zk_rendered_def List.map_filter_simps)


end
